theory Spec2Isabelle
  imports Main "HOL-Library.AList" "HOL-Library.Monad_Syntax"
begin

section \<open>Data model (shared/schema.ts)\<close>

text \<open>
  Timestamps (JavaScript \<open>Date\<close>) are milliseconds since the epoch, an \<open>int\<close>; a nullable
  column is an \<open>option\<close>. Text columns are strings; \<open>status\<close> and \<open>action\<close> are plain text
  columns in the schema, so they stay strings here. Every field carries a prefix naming
  its table, since the tables share field names (\<open>id\<close>, \<open>status\<close>, \<open>createdAt\<close>, ...).
\<close>

record Book =
  b_id :: int
  b_title :: string
  b_author :: string
  b_category :: string
  b_language :: string
  b_price :: int
  b_publisher :: string
  b_ddc :: string
  b_coverImage :: "string option"
  b_status :: string
  b_createdAt :: "int option"

record Member =
  m_id :: int
  m_fullName :: string
  m_class :: string
  m_registrationNo :: string
  m_createdAt :: "int option"

record Category =
  cat_id :: int
  cat_name :: string
  cat_createdAt :: "int option"

record BookSuggestion =
  sg_id :: int
  sg_memberId :: int
  sg_bookTitle :: string
  sg_author :: string
  sg_reason :: "string option"
  sg_status :: string
  sg_createdAt :: "int option"

record BookReview =
  rv_id :: int
  rv_bookId :: int
  rv_memberId :: int
  rv_rating :: int
  rv_review :: string
  rv_createdAt :: "int option"

record Circulation =
  ci_id :: int
  ci_bookId :: int
  ci_memberId :: int
  ci_action :: string
  ci_date :: "int option"
  ci_dueDate :: "int option"
  ci_returnDate :: "int option"
  ci_status :: string

subsection \<open>Insert types: the insert schemas omit id, createdAt/date and status\<close>

record InsertBook =
  ib_title :: string
  ib_author :: string
  ib_category :: string
  ib_language :: string
  ib_price :: int
  ib_publisher :: string
  ib_ddc :: string
  ib_coverImage :: "string option"

record InsertMember =
  im_fullName :: string
  im_class :: string
  im_registrationNo :: string

record InsertCategory =
  icat_name :: string

record InsertBookSuggestion =
  isg_memberId :: int
  isg_bookTitle :: string
  isg_author :: string
  isg_reason :: "string option"

record InsertBookReview =
  irv_bookId :: int
  irv_memberId :: int
  irv_rating :: int
  irv_review :: string

record InsertCirculation =
  ici_bookId :: int
  ici_memberId :: int
  ici_action :: string
  ici_dueDate :: "int option"
  ici_returnDate :: "int option"

subsection \<open>Partial updates\<close>

text \<open>
  \<open>Partial<T>\<close>: every field of \<open>T\<close> may be present or absent. \<open>None\<close> is an absent key;
  for a nullable field the present value is itself an \<open>option\<close>. The object spread
  \<open>{ ...entity, ...updates }\<close> overwrites exactly the present keys.
\<close>

definition spread :: "'a \<Rightarrow> 'a option \<Rightarrow> 'a" where
  "spread old upd = (case upd of None \<Rightarrow> old | Some v \<Rightarrow> v)"

record BookUpdates =
  ub_id :: "int option"
  ub_title :: "string option"
  ub_author :: "string option"
  ub_category :: "string option"
  ub_language :: "string option"
  ub_price :: "int option"
  ub_publisher :: "string option"
  ub_ddc :: "string option"
  ub_coverImage :: "string option option"
  ub_status :: "string option"
  ub_createdAt :: "int option option"

definition spreadBook :: "Book \<Rightarrow> BookUpdates \<Rightarrow> Book" where
  "spreadBook b u =
     \<lparr> b_id = spread (b_id b) (ub_id u),
       b_title = spread (b_title b) (ub_title u),
       b_author = spread (b_author b) (ub_author u),
       b_category = spread (b_category b) (ub_category u),
       b_language = spread (b_language b) (ub_language u),
       b_price = spread (b_price b) (ub_price u),
       b_publisher = spread (b_publisher b) (ub_publisher u),
       b_ddc = spread (b_ddc b) (ub_ddc u),
       b_coverImage = spread (b_coverImage b) (ub_coverImage u),
       b_status = spread (b_status b) (ub_status u),
       b_createdAt = spread (b_createdAt b) (ub_createdAt u) \<rparr>"

record MemberUpdates =
  um_id :: "int option"
  um_fullName :: "string option"
  um_class :: "string option"
  um_registrationNo :: "string option"
  um_createdAt :: "int option option"

definition spreadMember :: "Member \<Rightarrow> MemberUpdates \<Rightarrow> Member" where
  "spreadMember m u =
     \<lparr> m_id = spread (m_id m) (um_id u),
       m_fullName = spread (m_fullName m) (um_fullName u),
       m_class = spread (m_class m) (um_class u),
       m_registrationNo = spread (m_registrationNo m) (um_registrationNo u),
       m_createdAt = spread (m_createdAt m) (um_createdAt u) \<rparr>"

record CategoryUpdates =
  ucat_id :: "int option"
  ucat_name :: "string option"
  ucat_createdAt :: "int option option"

definition spreadCategory :: "Category \<Rightarrow> CategoryUpdates \<Rightarrow> Category" where
  "spreadCategory c u =
     \<lparr> cat_id = spread (cat_id c) (ucat_id u),
       cat_name = spread (cat_name c) (ucat_name u),
       cat_createdAt = spread (cat_createdAt c) (ucat_createdAt u) \<rparr>"

record BookSuggestionUpdates =
  usg_id :: "int option"
  usg_memberId :: "int option"
  usg_bookTitle :: "string option"
  usg_author :: "string option"
  usg_reason :: "string option option"
  usg_status :: "string option"
  usg_createdAt :: "int option option"

definition spreadBookSuggestion :: "BookSuggestion \<Rightarrow> BookSuggestionUpdates \<Rightarrow> BookSuggestion" where
  "spreadBookSuggestion g u =
     \<lparr> sg_id = spread (sg_id g) (usg_id u),
       sg_memberId = spread (sg_memberId g) (usg_memberId u),
       sg_bookTitle = spread (sg_bookTitle g) (usg_bookTitle u),
       sg_author = spread (sg_author g) (usg_author u),
       sg_reason = spread (sg_reason g) (usg_reason u),
       sg_status = spread (sg_status g) (usg_status u),
       sg_createdAt = spread (sg_createdAt g) (usg_createdAt u) \<rparr>"

record BookReviewUpdates =
  urv_id :: "int option"
  urv_bookId :: "int option"
  urv_memberId :: "int option"
  urv_rating :: "int option"
  urv_review :: "string option"
  urv_createdAt :: "int option option"

definition spreadBookReview :: "BookReview \<Rightarrow> BookReviewUpdates \<Rightarrow> BookReview" where
  "spreadBookReview r u =
     \<lparr> rv_id = spread (rv_id r) (urv_id u),
       rv_bookId = spread (rv_bookId r) (urv_bookId u),
       rv_memberId = spread (rv_memberId r) (urv_memberId u),
       rv_rating = spread (rv_rating r) (urv_rating u),
       rv_review = spread (rv_review r) (urv_review u),
       rv_createdAt = spread (rv_createdAt r) (urv_createdAt u) \<rparr>"

record CirculationUpdates =
  uci_id :: "int option"
  uci_bookId :: "int option"
  uci_memberId :: "int option"
  uci_action :: "string option"
  uci_date :: "int option option"
  uci_dueDate :: "int option option"
  uci_returnDate :: "int option option"
  uci_status :: "string option"

definition spreadCirculation :: "Circulation \<Rightarrow> CirculationUpdates \<Rightarrow> Circulation" where
  "spreadCirculation c u =
     \<lparr> ci_id = spread (ci_id c) (uci_id u),
       ci_bookId = spread (ci_bookId c) (uci_bookId u),
       ci_memberId = spread (ci_memberId c) (uci_memberId u),
       ci_action = spread (ci_action c) (uci_action u),
       ci_date = spread (ci_date c) (uci_date u),
       ci_dueDate = spread (ci_dueDate c) (uci_dueDate u),
       ci_returnDate = spread (ci_returnDate c) (uci_returnDate u),
       ci_status = spread (ci_status c) (uci_status u) \<rparr>"

text \<open>The empty partial objects, from which the flows build \<open>{ status: ... }\<close> and \<open>{ dueDate: ... }\<close>.\<close>

definition noBookUpdates :: BookUpdates where
  "noBookUpdates =
     \<lparr> ub_id = None, ub_title = None, ub_author = None, ub_category = None, ub_language = None,
       ub_price = None, ub_publisher = None, ub_ddc = None, ub_coverImage = None,
       ub_status = None, ub_createdAt = None \<rparr>"

definition noCirculationUpdates :: CirculationUpdates where
  "noCirculationUpdates =
     \<lparr> uci_id = None, uci_bookId = None, uci_memberId = None, uci_action = None, uci_date = None,
       uci_dueDate = None, uci_returnDate = None, uci_status = None \<rparr>"

section \<open>The JavaScript Map\<close>

text \<open>
  A JavaScript \<open>Map\<close> iterates in insertion order; \<open>set\<close> on a key already present keeps
  the key's position, \<open>delete\<close> reports whether the key was present. An association list
  with \<open>AList.update\<close> (replace in place, else append) and \<open>AList.delete\<close> is exactly that.
\<close>

type_synonym 'v jsmap = "(int \<times> 'v) list"

definition Map_get :: "'v jsmap \<Rightarrow> int \<Rightarrow> 'v option" where
  "Map_get m k = map_of m k"

definition Map_set :: "'v jsmap \<Rightarrow> int \<Rightarrow> 'v \<Rightarrow> 'v jsmap" where
  "Map_set m k v = AList.update k v m"

definition Map_delete :: "'v jsmap \<Rightarrow> int \<Rightarrow> bool \<times> 'v jsmap" where
  "Map_delete m k = (k \<in> set (map fst m), AList.delete k m)"

definition Map_values :: "'v jsmap \<Rightarrow> 'v list" where
  "Map_values m = map snd m"

definition Map_keys :: "'v jsmap \<Rightarrow> int set" where
  "Map_keys m = set (map fst m)"

section \<open>MemStorage\<close>

record MemStorage =
  books :: "Book jsmap"
  members :: "Member jsmap"
  categories :: "Category jsmap"
  bookSuggestions :: "BookSuggestion jsmap"
  bookReviews :: "BookReview jsmap"
  circulation :: "Circulation jsmap"
  currentId :: int

definition newMemStorage :: MemStorage where
  "newMemStorage =
     \<lparr> books = [], members = [], categories = [], bookSuggestions = [], bookReviews = [],
       circulation = [], currentId = 1 \<rparr>"

text \<open>
  Every method takes the store and returns its result with the store after the call.
  \<open>new Date()\<close> is the argument \<open>now\<close>. \<open>this.currentId++\<close> yields the old value.
\<close>

subsection \<open>Books\<close>

definition getBooks :: "MemStorage \<Rightarrow> Book list" where
  "getBooks s = Map_values (books s)"

definition getBook :: "MemStorage \<Rightarrow> int \<Rightarrow> Book option" where
  "getBook s i = Map_get (books s) i"

definition createBook :: "MemStorage \<Rightarrow> InsertBook \<Rightarrow> int \<Rightarrow> Book \<times> MemStorage" where
  "createBook s book now =
     (let i = currentId s;
          newBook = \<lparr> b_id = i, b_title = ib_title book, b_author = ib_author book,
                      b_category = ib_category book, b_language = ib_language book,
                      b_price = ib_price book, b_publisher = ib_publisher book,
                      b_ddc = ib_ddc book, b_coverImage = ib_coverImage book,
                      b_status = ''available'', b_createdAt = Some now \<rparr>
      in (newBook, s\<lparr> currentId := i + 1, books := Map_set (books s) i newBook \<rparr>))"

definition updateBook :: "MemStorage \<Rightarrow> int \<Rightarrow> BookUpdates \<Rightarrow> Book option \<times> MemStorage" where
  "updateBook s i updates =
     (case Map_get (books s) i of
        None \<Rightarrow> (None, s)
      | Some book \<Rightarrow>
          (let updatedBook = spreadBook book updates
           in (Some updatedBook, s\<lparr> books := Map_set (books s) i updatedBook \<rparr>)))"

definition deleteBook :: "MemStorage \<Rightarrow> int \<Rightarrow> bool \<times> MemStorage" where
  "deleteBook s i = (case Map_delete (books s) i of (r, m) \<Rightarrow> (r, s\<lparr> books := m \<rparr>))"

subsection \<open>Members\<close>

definition getMembers :: "MemStorage \<Rightarrow> Member list" where
  "getMembers s = Map_values (members s)"

definition getMember :: "MemStorage \<Rightarrow> int \<Rightarrow> Member option" where
  "getMember s i = Map_get (members s) i"

definition createMember :: "MemStorage \<Rightarrow> InsertMember \<Rightarrow> int \<Rightarrow> Member \<times> MemStorage" where
  "createMember s member now =
     (let i = currentId s;
          newMember = \<lparr> m_id = i, m_fullName = im_fullName member, m_class = im_class member,
                        m_registrationNo = im_registrationNo member, m_createdAt = Some now \<rparr>
      in (newMember, s\<lparr> currentId := i + 1, members := Map_set (members s) i newMember \<rparr>))"

definition updateMember :: "MemStorage \<Rightarrow> int \<Rightarrow> MemberUpdates \<Rightarrow> Member option \<times> MemStorage" where
  "updateMember s i updates =
     (case Map_get (members s) i of
        None \<Rightarrow> (None, s)
      | Some member \<Rightarrow>
          (let updatedMember = spreadMember member updates
           in (Some updatedMember, s\<lparr> members := Map_set (members s) i updatedMember \<rparr>)))"

definition deleteMember :: "MemStorage \<Rightarrow> int \<Rightarrow> bool \<times> MemStorage" where
  "deleteMember s i = (case Map_delete (members s) i of (r, m) \<Rightarrow> (r, s\<lparr> members := m \<rparr>))"

subsection \<open>Categories\<close>

definition getCategories :: "MemStorage \<Rightarrow> Category list" where
  "getCategories s = Map_values (categories s)"

definition createCategory :: "MemStorage \<Rightarrow> InsertCategory \<Rightarrow> int \<Rightarrow> Category \<times> MemStorage" where
  "createCategory s category now =
     (let i = currentId s;
          newCategory = \<lparr> cat_id = i, cat_name = icat_name category, cat_createdAt = Some now \<rparr>
      in (newCategory, s\<lparr> currentId := i + 1, categories := Map_set (categories s) i newCategory \<rparr>))"

definition updateCategory :: "MemStorage \<Rightarrow> int \<Rightarrow> CategoryUpdates \<Rightarrow> Category option \<times> MemStorage" where
  "updateCategory s i updates =
     (case Map_get (categories s) i of
        None \<Rightarrow> (None, s)
      | Some category \<Rightarrow>
          (let updatedCategory = spreadCategory category updates
           in (Some updatedCategory, s\<lparr> categories := Map_set (categories s) i updatedCategory \<rparr>)))"

definition deleteCategory :: "MemStorage \<Rightarrow> int \<Rightarrow> bool \<times> MemStorage" where
  "deleteCategory s i = (case Map_delete (categories s) i of (r, m) \<Rightarrow> (r, s\<lparr> categories := m \<rparr>))"

subsection \<open>Book suggestions\<close>

definition createBookSuggestion ::
  "MemStorage \<Rightarrow> InsertBookSuggestion \<Rightarrow> int \<Rightarrow> BookSuggestion \<times> MemStorage" where
  "createBookSuggestion s suggestion now =
     (let i = currentId s;
          newSuggestion = \<lparr> sg_id = i, sg_memberId = isg_memberId suggestion,
                            sg_bookTitle = isg_bookTitle suggestion,
                            sg_author = isg_author suggestion, sg_reason = isg_reason suggestion,
                            sg_status = ''pending'', sg_createdAt = Some now \<rparr>
      in (newSuggestion,
          s\<lparr> currentId := i + 1, bookSuggestions := Map_set (bookSuggestions s) i newSuggestion \<rparr>))"

definition updateBookSuggestion ::
  "MemStorage \<Rightarrow> int \<Rightarrow> BookSuggestionUpdates \<Rightarrow> BookSuggestion option \<times> MemStorage" where
  "updateBookSuggestion s i updates =
     (case Map_get (bookSuggestions s) i of
        None \<Rightarrow> (None, s)
      | Some suggestion \<Rightarrow>
          (let updatedSuggestion = spreadBookSuggestion suggestion updates
           in (Some updatedSuggestion,
               s\<lparr> bookSuggestions := Map_set (bookSuggestions s) i updatedSuggestion \<rparr>)))"

subsection \<open>Book reviews\<close>

definition getBookReviews :: "MemStorage \<Rightarrow> BookReview list" where
  "getBookReviews s = Map_values (bookReviews s)"

definition createBookReview ::
  "MemStorage \<Rightarrow> InsertBookReview \<Rightarrow> int \<Rightarrow> BookReview \<times> MemStorage" where
  "createBookReview s review now =
     (let i = currentId s;
          newReview = \<lparr> rv_id = i, rv_bookId = irv_bookId review, rv_memberId = irv_memberId review,
                        rv_rating = irv_rating review, rv_review = irv_review review,
                        rv_createdAt = Some now \<rparr>
      in (newReview, s\<lparr> currentId := i + 1, bookReviews := Map_set (bookReviews s) i newReview \<rparr>))"

definition updateBookReview ::
  "MemStorage \<Rightarrow> int \<Rightarrow> BookReviewUpdates \<Rightarrow> BookReview option \<times> MemStorage" where
  "updateBookReview s i updates =
     (case Map_get (bookReviews s) i of
        None \<Rightarrow> (None, s)
      | Some review \<Rightarrow>
          (let updatedReview = spreadBookReview review updates
           in (Some updatedReview, s\<lparr> bookReviews := Map_set (bookReviews s) i updatedReview \<rparr>)))"

subsection \<open>Circulation\<close>

definition getCirculation :: "MemStorage \<Rightarrow> Circulation list" where
  "getCirculation s = Map_values (circulation s)"

definition getCirculationRecord :: "MemStorage \<Rightarrow> int \<Rightarrow> Circulation option" where
  "getCirculationRecord s i = Map_get (circulation s) i"

definition createCirculationRecord ::
  "MemStorage \<Rightarrow> InsertCirculation \<Rightarrow> int \<Rightarrow> Circulation \<times> MemStorage" where
  "createCirculationRecord s circ now =
     (let i = currentId s;
          newCirculation = \<lparr> ci_id = i, ci_bookId = ici_bookId circ, ci_memberId = ici_memberId circ,
                             ci_action = ici_action circ, ci_date = Some now,
                             ci_dueDate = ici_dueDate circ, ci_returnDate = ici_returnDate circ,
                             ci_status = ''active'' \<rparr>
      in (newCirculation,
          s\<lparr> currentId := i + 1, circulation := Map_set (circulation s) i newCirculation \<rparr>))"

definition updateCirculationRecord ::
  "MemStorage \<Rightarrow> int \<Rightarrow> CirculationUpdates \<Rightarrow> Circulation option \<times> MemStorage" where
  "updateCirculationRecord s i updates =
     (case Map_get (circulation s) i of
        None \<Rightarrow> (None, s)
      | Some record \<Rightarrow>
          (let updatedRecord = spreadCirculation record updates
           in (Some updatedRecord, s\<lparr> circulation := Map_set (circulation s) i updatedRecord \<rparr>)))"

definition getActiveCirculation :: "MemStorage \<Rightarrow> Circulation list" where
  "getActiveCirculation s = filter (\<lambda>c. ci_status c = ''active'') (Map_values (circulation s))"

text \<open>
  \<open>c.status === "active" && c.dueDate && new Date(c.dueDate) < now\<close>: a null due date is
  falsy, a \<open>Date\<close> is truthy. The method assigns nothing, so the store after the call is
  the store before it.
\<close>

definition getOverdueCirculation :: "MemStorage \<Rightarrow> int \<Rightarrow> Circulation list \<times> MemStorage" where
  "getOverdueCirculation s now =
     (filter (\<lambda>c. ci_status c = ''active'' \<and>
                  (case ci_dueDate c of None \<Rightarrow> False | Some d \<Rightarrow> d < now))
        (Map_values (circulation s)), s)"

subsection \<open>Analytics\<close>

record MostReadRow =
  mr_book :: Book
  mr_borrowCount :: int

record ActiveReaderRow =
  ar_member :: Member
  ar_borrowCount :: int

record IssuedRow =
  is_book :: Book
  is_member :: Member
  is_dueDate :: "int option"

text \<open>
  The body of the \<open>forEach\<close> that fills \<open>borrowCounts\<close>; \<open>key\<close> is \<open>record.bookId\<close> in
  \<open>getMostReadBooks\<close> and \<open>record.memberId\<close> in \<open>getMostActiveReaders\<close>, the two loops
  being otherwise the same text. \<open>borrowCounts.get(k) || 0\<close> is 0 for a missing key and
  the stored count otherwise.
\<close>

definition countStep :: "(Circulation \<Rightarrow> int) \<Rightarrow> int jsmap \<Rightarrow> Circulation \<Rightarrow> int jsmap" where
  "countStep key borrowCounts record =
     (if ci_action record = ''borrow''
      then Map_set borrowCounts (key record)
             ((case Map_get borrowCounts (key record) of None \<Rightarrow> 0 | Some n \<Rightarrow> n) + 1)
      else borrowCounts)"

definition countBorrows :: "(Circulation \<Rightarrow> int) \<Rightarrow> Circulation list \<Rightarrow> int jsmap" where
  "countBorrows key records = foldl (countStep key) [] records"

text \<open>
  \<open>results.sort((a, b) => b.borrowCount - a.borrowCount)\<close>: \<open>Array.prototype.sort\<close> is
  stable, so the result is the stable sort by descending count, which is the stable
  ascending sort on the negated count.
\<close>

definition getMostReadBooks :: "MemStorage \<Rightarrow> MostReadRow list" where
  "getMostReadBooks s =
     (let borrowCounts = countBorrows ci_bookId (Map_values (circulation s));
          results = List.map_filter
            (\<lambda>(bookId, count). case Map_get (books s) bookId of
                 None \<Rightarrow> None
               | Some book \<Rightarrow> Some \<lparr> mr_book = book, mr_borrowCount = count \<rparr>)
            borrowCounts
      in sort_key (\<lambda>r. - mr_borrowCount r) results)"

definition getMostActiveReaders :: "MemStorage \<Rightarrow> ActiveReaderRow list" where
  "getMostActiveReaders s =
     (let borrowCounts = countBorrows ci_memberId (Map_values (circulation s));
          results = List.map_filter
            (\<lambda>(memberId, count). case Map_get (members s) memberId of
                 None \<Rightarrow> None
               | Some member \<Rightarrow> Some \<lparr> ar_member = member, ar_borrowCount = count \<rparr>)
            borrowCounts
      in sort_key (\<lambda>r. - ar_borrowCount r) results)"

definition getIssuedBooks :: "MemStorage \<Rightarrow> IssuedRow list" where
  "getIssuedBooks s =
     List.map_filter
       (\<lambda>record. case (Map_get (books s) (ci_bookId record), Map_get (members s) (ci_memberId record)) of
            (Some book, Some member) \<Rightarrow>
              Some \<lparr> is_book = book, is_member = member, is_dueDate = ci_dueDate record \<rparr>
          | _ \<Rightarrow> None)
       (getActiveCirculation s)"

subsection \<open>Search\<close>

text \<open>
  Strings are ASCII here: \<open>toLowerCase\<close> maps \<open>A\<close>..\<open>Z\<close> to \<open>a\<close>..\<open>z\<close> and leaves every
  other character alone. \<open>includes_str\<close> is \<open>String.prototype.includes\<close>: the argument
  occurs at some position.
\<close>

definition lowerChar :: "char \<Rightarrow> char" where
  "lowerChar c =
     (let n = (of_char c :: nat) in if 65 \<le> n \<and> n \<le> 90 then char_of (n + 32) else c)"

definition toLowerCase :: "string \<Rightarrow> string" where
  "toLowerCase s = map lowerChar s"

fun startsWith :: "string \<Rightarrow> string \<Rightarrow> bool" where
  "startsWith s [] = True"
| "startsWith [] (c # cs) = False"
| "startsWith (x # xs) (c # cs) = (x = c \<and> startsWith xs cs)"

fun includes_str :: "string \<Rightarrow> string \<Rightarrow> bool" where
  "includes_str [] sub = (sub = [])"
| "includes_str (x # xs) sub = (startsWith (x # xs) sub \<or> includes_str xs sub)"

definition searchBooks :: "MemStorage \<Rightarrow> string \<Rightarrow> Book list" where
  "searchBooks s query =
     (let lowerQuery = toLowerCase query
      in filter (\<lambda>book. includes_str (toLowerCase (b_title book)) lowerQuery \<or>
                        includes_str (toLowerCase (b_author book)) lowerQuery \<or>
                        includes_str (toLowerCase (b_category book)) lowerQuery)
           (Map_values (books s)))"

definition searchMembers :: "MemStorage \<Rightarrow> string \<Rightarrow> Member list" where
  "searchMembers s query =
     (let lowerQuery = toLowerCase query
      in filter (\<lambda>member. includes_str (toLowerCase (m_fullName member)) lowerQuery \<or>
                          includes_str (toLowerCase (m_class member)) lowerQuery \<or>
                          includes_str (toLowerCase (m_registrationNo member)) lowerQuery)
           (Map_values (members s)))"

text \<open>
  What the specification asks of a search: \<open>q\<close> occurs in the field when case is ignored.
\<close>

definition containsIgnoreCase :: "string \<Rightarrow> string \<Rightarrow> bool" where
  "containsIgnoreCase field q =
     (\<exists>before after. toLowerCase field = before @ toLowerCase q @ after)"

section \<open>DatabaseStorage\<close>

text \<open>
  A table is the list of its rows. Only the queries whose text differs from MemStorage's
  are modelled: the two searches, the overdue query and the insert of a circulation row.
\<close>

subsection \<open>The LIKE operator of PostgreSQL\<close>

text \<open>
  \<open>like(column, pattern)\<close> is SQL \<open>column LIKE pattern\<close>: \<open>%\<close> matches any run of
  characters, \<open>_\<close> any one character, a backslash makes the next pattern character
  literal, and every other character matches itself, case-sensitively. A pattern ending in
  a lone backslash is an error in PostgreSQL and matches nothing here.
\<close>

fun like :: "string \<Rightarrow> string \<Rightarrow> bool" where
  "like [] [] = True"
| "like (x # xs) [] = False"
| "like s (p # ps) =
     (if p = CHR ''%'' then
        like s ps \<or> (case s of [] \<Rightarrow> False | x # xs \<Rightarrow> like xs (p # ps))
      else if p = CHR ''_'' then
        (case s of [] \<Rightarrow> False | x # xs \<Rightarrow> like xs ps)
      else if p = CHR 0x5C then
        (case ps of
           [] \<Rightarrow> False
         | q # qs \<Rightarrow> (case s of [] \<Rightarrow> False | x # xs \<Rightarrow> x = q \<and> like xs qs))
      else
        (case s of [] \<Rightarrow> False | x # xs \<Rightarrow> x = p \<and> like xs ps))"

definition db_searchBooks :: "Book list \<Rightarrow> string \<Rightarrow> Book list" where
  "db_searchBooks rows query =
     (let lowerQuery = ''%'' @ toLowerCase query @ ''%''
      in filter (\<lambda>row. like (b_title row) lowerQuery \<or>
                       like (b_author row) lowerQuery \<or>
                       like (b_category row) lowerQuery) rows)"

definition db_searchMembers :: "Member list \<Rightarrow> string \<Rightarrow> Member list" where
  "db_searchMembers rows query =
     (let lowerQuery = ''%'' @ toLowerCase query @ ''%''
      in filter (\<lambda>row. like (m_fullName row) lowerQuery \<or>
                       like (m_class row) lowerQuery \<or>
                       like (m_registrationNo row) lowerQuery) rows)"

subsection \<open>The overdue query\<close>

text \<open>
  \<open>where(and(eq(status, "active"), lt(dueDate, now)))\<close>. A comparison with NULL is NULL
  (\<open>None\<close>), \<open>AND\<close> is three-valued, and a row is selected when the condition is true.
\<close>

definition sql_lt :: "int option \<Rightarrow> int \<Rightarrow> bool option" where
  "sql_lt a b = (case a of None \<Rightarrow> None | Some x \<Rightarrow> Some (x < b))"

definition sql_and :: "bool option \<Rightarrow> bool option \<Rightarrow> bool option" where
  "sql_and a b =
     (if a = Some False \<or> b = Some False then Some False
      else if a = Some True \<and> b = Some True then Some True
      else None)"

definition db_getOverdueCirculation :: "Circulation list \<Rightarrow> int \<Rightarrow> Circulation list" where
  "db_getOverdueCirculation rows now =
     filter (\<lambda>row. sql_and (Some (ci_status row = ''active'')) (sql_lt (ci_dueDate row) now) = Some True)
       rows"

subsection \<open>Inserting a circulation row\<close>

text \<open>
  The table with the next value of its \<open>serial\<close> id. Foreign keys are not modelled.
\<close>

record CirculationTable =
  ct_rows :: "Circulation list"
  ct_nextval :: int

definition db_createCirculationRecord ::
  "CirculationTable \<Rightarrow> InsertCirculation \<Rightarrow> int \<Rightarrow> Circulation \<times> CirculationTable" where
  "db_createCirculationRecord t circulationData now =
     (let newCirculation =
            \<lparr> ci_id = ct_nextval t, ci_bookId = ici_bookId circulationData,
              ci_memberId = ici_memberId circulationData, ci_action = ici_action circulationData,
              ci_date = Some now, ci_dueDate = ici_dueDate circulationData,
              ci_returnDate = ici_returnDate circulationData,
              ci_status = (if ici_action circulationData = ''return'' then ''returned'' else ''active'') \<rparr>
      in (newCirculation,
          t\<lparr> ct_rows := ct_rows t @ [newCirculation], ct_nextval := ct_nextval t + 1 \<rparr>))"

section \<open>The HTTP layer (registerRoutes)\<close>

subsection \<open>Request bodies and the insert schemas\<close>

text \<open>
  A request body is a JSON object: a finite map from keys to JSON values. Numbers are the
  integers. The schemas are the ones \<open>createInsertSchema\<close> derives from the table: a
  \<open>text\<close> column that is not null asks for a string, an \<open>integer\<close> column for a number, a
  nullable column may also be absent or null, the omitted columns are not part of the
  schema, and keys that are not part of the schema are dropped. A nullable \<open>timestamp\<close>
  column asks for a \<open>Date\<close>, which no JSON value is, so it is accepted only when absent or
  null. \<open>None\<close> is the \<open>ZodError\<close>.
\<close>

datatype json = JNull | JBool bool | JNum int | JStr string

type_synonym body = "string \<rightharpoonup> json"

definition zString :: "json option \<Rightarrow> string option" where
  "zString v = (case v of Some (JStr x) \<Rightarrow> Some x | _ \<Rightarrow> None)"

definition zNumber :: "json option \<Rightarrow> int option" where
  "zNumber v = (case v of Some (JNum n) \<Rightarrow> Some n | _ \<Rightarrow> None)"


definition zDateNullish :: "json option \<Rightarrow> int option option" where
  "zDateNullish v = (case v of None \<Rightarrow> Some None | Some JNull \<Rightarrow> Some None | _ \<Rightarrow> None)"


definition insertMemberSchema :: "body \<Rightarrow> InsertMember option" where
  "insertMemberSchema b = do {
     fullName \<leftarrow> zString (b ''fullName'');
     class \<leftarrow> zString (b ''class'');
     registrationNo \<leftarrow> zString (b ''registrationNo'');
     Some \<lparr> im_fullName = fullName, im_class = class, im_registrationNo = registrationNo \<rparr>
   }"

definition insertCategorySchema :: "body \<Rightarrow> InsertCategory option" where
  "insertCategorySchema b = do {
     name \<leftarrow> zString (b ''name'');
     Some \<lparr> icat_name = name \<rparr>
   }"

definition insertBookReviewSchema :: "body \<Rightarrow> InsertBookReview option" where
  "insertBookReviewSchema b = do {
     bookId \<leftarrow> zNumber (b ''bookId'');
     memberId \<leftarrow> zNumber (b ''memberId'');
     rating \<leftarrow> zNumber (b ''rating'');
     review \<leftarrow> zString (b ''review'');
     Some \<lparr> irv_bookId = bookId, irv_memberId = memberId, irv_rating = rating, irv_review = review \<rparr>
   }"

definition insertCirculationSchema :: "body \<Rightarrow> InsertCirculation option" where
  "insertCirculationSchema b = do {
     bookId \<leftarrow> zNumber (b ''bookId'');
     memberId \<leftarrow> zNumber (b ''memberId'');
     action \<leftarrow> zString (b ''action'');
     dueDate \<leftarrow> zDateNullish (b ''dueDate'');
     returnDate \<leftarrow> zDateNullish (b ''returnDate'');
     Some \<lparr> ici_bookId = bookId, ici_memberId = memberId, ici_action = action,
            ici_dueDate = dueDate, ici_returnDate = returnDate \<rparr>
   }"

subsection \<open>Responses and routes\<close>

datatype 'a response =
    Ok 'a | Created 'a | NoContent | BadRequest string | NotFound string | ServerError string

fun statusCode :: "'a response \<Rightarrow> nat" where
  "statusCode (Ok _) = 200"
| "statusCode (Created _) = 201"
| "statusCode NoContent = 204"
| "statusCode (BadRequest _) = 400"
| "statusCode (NotFound _) = 404"
| "statusCode (ServerError _) = 500"


definition put_api_books_id ::
  "MemStorage \<Rightarrow> int \<Rightarrow> BookUpdates \<Rightarrow> Book response \<times> MemStorage" where
  "put_api_books_id s i updates =
     (case updateBook s i updates of
        (None, s') \<Rightarrow> (NotFound ''Book not found'', s')
      | (Some book, s') \<Rightarrow> (Ok book, s'))"

definition delete_api_books_id :: "MemStorage \<Rightarrow> int \<Rightarrow> unit response \<times> MemStorage" where
  "delete_api_books_id s i =
     (case deleteBook s i of
        (deleted, s') \<Rightarrow> if \<not> deleted then (NotFound ''Book not found'', s') else (NoContent, s'))"

definition post_api_members :: "MemStorage \<Rightarrow> body \<Rightarrow> int \<Rightarrow> Member response \<times> MemStorage" where
  "post_api_members s b now =
     (case insertMemberSchema b of
        None \<Rightarrow> (BadRequest ''Invalid member data'', s)
      | Some data \<Rightarrow> (case createMember s data now of (member, s') \<Rightarrow> (Created member, s')))"

definition post_api_categories :: "MemStorage \<Rightarrow> body \<Rightarrow> int \<Rightarrow> Category response \<times> MemStorage" where
  "post_api_categories s b now =
     (case insertCategorySchema b of
        None \<Rightarrow> (BadRequest ''Invalid category data'', s)
      | Some data \<Rightarrow> (case createCategory s data now of (category, s') \<Rightarrow> (Created category, s')))"

definition delete_api_categories_id :: "MemStorage \<Rightarrow> int \<Rightarrow> unit response \<times> MemStorage" where
  "delete_api_categories_id s i =
     (case deleteCategory s i of
        (deleted, s') \<Rightarrow> if \<not> deleted then (NotFound ''Category not found'', s') else (NoContent, s'))"

definition post_api_book_reviews ::
  "MemStorage \<Rightarrow> body \<Rightarrow> int \<Rightarrow> BookReview response \<times> MemStorage" where
  "post_api_book_reviews s b now =
     (case insertBookReviewSchema b of
        None \<Rightarrow> (BadRequest ''Invalid review data'', s)
      | Some data \<Rightarrow> (case createBookReview s data now of (review, s') \<Rightarrow> (Created review, s')))"

definition get_api_circulation_active :: "MemStorage \<Rightarrow> Circulation list response" where
  "get_api_circulation_active s = Ok (getActiveCirculation s)"

definition post_api_circulation ::
  "MemStorage \<Rightarrow> body \<Rightarrow> int \<Rightarrow> Circulation response \<times> MemStorage" where
  "post_api_circulation s b now =
     (case insertCirculationSchema b of
        None \<Rightarrow> (BadRequest ''Invalid circulation data'', s)
      | Some data \<Rightarrow>
          (case createCirculationRecord s data now of (circ, s') \<Rightarrow> (Created circ, s')))"

text \<open>
  A request that no route of \<open>registerRoutes\<close> matches. For circulation the routes are
  \<open>GET /api/circulation\<close>, \<open>/active\<close>, \<open>/overdue\<close> and \<open>POST /api/circulation\<close>, so the
  \<open>PUT /api/circulation/:id\<close> that both flows of the client send is such a request: no
  handler runs, its body is read by nobody and the store is untouched. What is answered is
  the host's affair and is the argument \<open>unmatchedOk\<close>: Express by itself answers 404, a
  catch-all handler installed after the routes answers 200.
\<close>

definition unmatched_route :: "bool \<Rightarrow> 'b \<Rightarrow> MemStorage \<Rightarrow> unit response \<times> MemStorage" where
  "unmatched_route unmatchedOk requestBody s =
     (if unmatchedOk then Ok () else NotFound ''Not Found'', s)"

section \<open>The circulation flows of the client (CirculationTab)\<close>

text \<open>
  Modelled from the spec: \<open>apiRequest\<close> of \<open>@/lib/queryClient\<close>, which the flows
  await and whose code is not part of what is verified here. It sends the request and throws unless the
  response is a success (200, 201, 204), so that a flow stops at the first request that
  fails; the specification has the HTTP layer answer failures with 400, 404 and 500.
\<close>

definition apiRequest :: "'a response \<times> MemStorage \<Rightarrow> 'a response option \<times> MemStorage" where
  "apiRequest r =
     (case r of (res, s') \<Rightarrow>
        if 200 \<le> statusCode res \<and> statusCode res < 300 then (Some res, s') else (None, s'))"

text \<open>\<open>response.json()\<close>: the entity a 200 or 201 response carries.\<close>

fun json_of :: "'a response \<Rightarrow> 'a option" where
  "json_of (Ok x) = Some x"
| "json_of (Created x) = Some x"
| "json_of _ = None"

datatype outcome = Success | Failure

text \<open>
  \<open>issueBook\<close>. \<open>serverNow\<close> is the clock the server reads when it creates the record,
  \<open>clientNow\<close> the clock the client reads afterwards for the due date.
  \<open>dueDate.setDate(dueDate.getDate() + 14)\<close> moves a date by 14 days of the local
  calendar, which depends on the time zone of the browser: it is the argument
  \<open>plus14days\<close>. The due date is the body of a request that no route matches.
\<close>

definition issueBook ::
  "bool \<Rightarrow> (int \<Rightarrow> int) \<Rightarrow> MemStorage \<Rightarrow> int \<Rightarrow> int \<Rightarrow> int \<Rightarrow> int \<Rightarrow> outcome \<times> MemStorage" where
  "issueBook unmatchedOk plus14days s bookId memberId serverNow clientNow =
     (let circulationData =
            [''bookId'' \<mapsto> JNum bookId, ''memberId'' \<mapsto> JNum memberId, ''action'' \<mapsto> JStr ''borrow'']
      in case apiRequest (post_api_circulation s circulationData serverNow) of
           (None, s1) \<Rightarrow> (Failure, s1)
         | (Some circulationResponse, s1) \<Rightarrow>
             (case json_of circulationResponse of
                None \<Rightarrow> (Failure, s1)
              | Some circulationRecord \<Rightarrow>
                  (let dueDate = plus14days clientNow
                   in case apiRequest (unmatched_route unmatchedOk
                             (ci_id circulationRecord,
                              noCirculationUpdates\<lparr> uci_dueDate := Some (Some dueDate) \<rparr>) s1) of
                        (None, s2) \<Rightarrow> (Failure, s2)
                      | (Some _, s2) \<Rightarrow>
                          (case apiRequest (put_api_books_id s2 bookId
                                  (noBookUpdates\<lparr> ub_status := Some ''issued'' \<rparr>)) of
                             (None, s3) \<Rightarrow> (Failure, s3)
                           | (Some _, s3) \<Rightarrow> (Success, s3)))))"

definition returnBook :: "bool \<Rightarrow> MemStorage \<Rightarrow> int \<Rightarrow> int \<Rightarrow> outcome \<times> MemStorage" where
  "returnBook unmatchedOk s bookId serverNow =
     (let setAvailable = (\<lambda>s'.
            case apiRequest (put_api_books_id s' bookId
                    (noBookUpdates\<lparr> ub_status := Some ''available'' \<rparr>)) of
              (None, s'') \<Rightarrow> (Failure, s'')
            | (Some _, s'') \<Rightarrow> (Success, s''))
      in case apiRequest (get_api_circulation_active s, s) of
           (None, s0) \<Rightarrow> (Failure, s0)
         | (Some activeRecordsResponse, s0) \<Rightarrow>
             (case json_of activeRecordsResponse of
                None \<Rightarrow> (Failure, s0)
              | Some activeRecords \<Rightarrow>
                  (case find (\<lambda>record. ci_bookId record = bookId) activeRecords of
                     None \<Rightarrow> setAvailable s0
                   | Some activeRecord \<Rightarrow>
                       (case apiRequest (unmatched_route unmatchedOk
                               (ci_id activeRecord,
                                noCirculationUpdates\<lparr> uci_status := Some ''returned'' \<rparr>) s0) of
                          (None, s1) \<Rightarrow> (Failure, s1)
                        | (Some _, s1) \<Rightarrow>
                            (let circulationData =
                                   [''bookId'' \<mapsto> JNum bookId,
                                    ''memberId'' \<mapsto> JNum (ci_memberId activeRecord),
                                    ''action'' \<mapsto> JStr ''return'']
                             in case apiRequest (post_api_circulation s1 circulationData serverNow) of
                                  (None, s2) \<Rightarrow> (Failure, s2)
                                | (Some _, s2) \<Rightarrow> setAvailable s2)))))"

section \<open>Properties stated over the store\<close>

text \<open>
  The keys under which the six maps hold entities, and the \<open>id\<close> fields of the entities
  held. A creation stores an entity under its own id, so the two agree until an update
  whose body carries an \<open>id\<close> overwrites the field of the stored copy.
\<close>

definition storeKeys :: "MemStorage \<Rightarrow> int set" where
  "storeKeys s = Map_keys (books s) \<union> Map_keys (members s) \<union> Map_keys (categories s) \<union>
     Map_keys (bookSuggestions s) \<union> Map_keys (bookReviews s) \<union> Map_keys (circulation s)"

definition storeIds :: "MemStorage \<Rightarrow> int set" where
  "storeIds s = b_id ` set (Map_values (books s)) \<union> m_id ` set (Map_values (members s)) \<union>
     cat_id ` set (Map_values (categories s)) \<union> sg_id ` set (Map_values (bookSuggestions s)) \<union>
     rv_id ` set (Map_values (bookReviews s)) \<union> ci_id ` set (Map_values (circulation s))"

definition keysBelowCounter :: "MemStorage \<Rightarrow> bool" where
  "keysBelowCounter s = (\<forall>k \<in> storeKeys s. k < currentId s)"

definition idsBelowCounter :: "MemStorage \<Rightarrow> bool" where
  "idsBelowCounter s = (\<forall>i \<in> storeIds s. i < currentId s)"

text \<open>The invariant of the data model: a book is issued exactly when an active record names it.\<close>

definition issuedIffActive :: "MemStorage \<Rightarrow> bool" where
  "issuedIffActive s =
     list_all (\<lambda>(k, book). (b_status book = ''issued'') =
                 list_ex (\<lambda>c. ci_bookId c = k) (getActiveCirculation s)) (books s)"

text \<open>The number of borrow records of a history that name \<open>k\<close> under \<open>key\<close>.\<close>

definition borrowsOf :: "(Circulation \<Rightarrow> int) \<Rightarrow> Circulation list \<Rightarrow> int \<Rightarrow> int" where
  "borrowsOf key records k =
     int (length (filter (\<lambda>r. ci_action r = ''borrow'' \<and> key r = k) records))"

text \<open>The row \<open>getMostReadBooks\<close> pushes for an entry of \<open>borrowCounts\<close>, if any.\<close>

definition mostReadRow :: "MemStorage \<Rightarrow> int \<times> int \<Rightarrow> MostReadRow option" where
  "mostReadRow s = (\<lambda>(bookId, count). case Map_get (books s) bookId of
       None \<Rightarrow> None
     | Some book \<Rightarrow> Some \<lparr> mr_book = book, mr_borrowCount = count \<rparr>)"

text \<open>The store without the circulation records of book \<open>k\<close>, and of member \<open>k\<close>.\<close>

definition withoutBookRecords :: "MemStorage \<Rightarrow> int \<Rightarrow> MemStorage" where
  "withoutBookRecords s k =
     s\<lparr> circulation := filter (\<lambda>(i, r). ci_bookId r \<noteq> k) (circulation s) \<rparr>"

definition withoutMemberRecords :: "MemStorage \<Rightarrow> int \<Rightarrow> MemStorage" where
  "withoutMemberRecords s k =
     s\<lparr> circulation := filter (\<lambda>(i, r). ci_memberId r \<noteq> k) (circulation s) \<rparr>"

section \<open>Example requests and stores\<close>

definition exampleBook :: InsertBook where
  "exampleBook =
     \<lparr> ib_title = ''Riyad'', ib_author = ''Nawawi'', ib_category = ''Hadith'', ib_language = ''Arabic'',
       ib_price = 45000, ib_publisher = ''Dar'', ib_ddc = ''297'', ib_coverImage = None \<rparr>"

definition otherBook :: InsertBook where
  "otherBook =
     \<lparr> ib_title = ''Alfiyya'', ib_author = ''Ibn Malik'', ib_category = ''Grammar'',
       ib_language = ''Arabic'', ib_price = 30000, ib_publisher = ''Dar'', ib_ddc = ''492'',
       ib_coverImage = None \<rparr>"

definition exampleMember :: InsertMember where
  "exampleMember = \<lparr> im_fullName = ''Ali Khan'', im_class = ''Ten'', im_registrationNo = ''R1'' \<rparr>"

definition aliKhan :: Member where
  "aliKhan = \<lparr> m_id = 1, m_fullName = ''Ali Khan'', m_class = ''Ten'', m_registrationNo = ''R1'',
               m_createdAt = Some 0 \<rparr>"

text \<open>A store with book 1 and member 2.\<close>

definition exampleStore :: MemStorage where
  "exampleStore = snd (createMember (snd (createBook newMemStorage exampleBook 0)) exampleMember 0)"


definition reviewBody :: "int \<Rightarrow> body" where
  "reviewBody rating =
     [''bookId'' \<mapsto> JNum 1, ''memberId'' \<mapsto> JNum 2, ''rating'' \<mapsto> JNum rating,
      ''review'' \<mapsto> JStr ''good'']"

definition circulationOf :: "int \<Rightarrow> int \<Rightarrow> string \<Rightarrow> InsertCirculation" where
  "circulationOf bookId memberId action =
     \<lparr> ici_bookId = bookId, ici_memberId = memberId, ici_action = action,
       ici_dueDate = None, ici_returnDate = None \<rparr>"

text \<open>
  Book 1 lent to member 2 by the store's own methods (the borrow record, then the book's
  status); and the same store after the book is deleted.
\<close>

definition issuedStore :: MemStorage where
  "issuedStore =
     snd (updateBook (snd (createCirculationRecord exampleStore (circulationOf 1 2 ''borrow'') 1000)) 1
            (noBookUpdates\<lparr> ub_status := Some ''issued'' \<rparr>))"

definition orphanStore :: MemStorage where
  "orphanStore = snd (deleteBook issuedStore 1)"


text \<open>The milliseconds of a day.\<close>

definition msPerDay :: int where
  "msPerDay = 86400000"

text \<open>
  Books 1 and 2, member 3, and a history in which book 2 is borrowed once, before book 1
  is borrowed three times and returned once.
\<close>

definition historyStore :: MemStorage where
  "historyStore =
     (let s1 = snd (createBook newMemStorage exampleBook 0);
          s2 = snd (createBook s1 otherBook 0);
          s3 = snd (createMember s2 exampleMember 0);
          s4 = snd (createCirculationRecord s3 (circulationOf 2 3 ''borrow'') 10);
          s5 = snd (createCirculationRecord s4 (circulationOf 1 3 ''borrow'') 20);
          s6 = snd (createCirculationRecord s5 (circulationOf 1 3 ''return'') 30);
          s7 = snd (createCirculationRecord s6 (circulationOf 1 3 ''borrow'') 40)
      in snd (createCirculationRecord s7 (circulationOf 1 3 ''borrow'') 50))"

text \<open>
  Book 1 and member 2 with three records read at time \<open>2 * msPerDay\<close>: one due a day
  before, one due a day after, one without a due date.
\<close>

definition dueStore :: MemStorage where
  "dueStore =
     (let s1 = snd (createCirculationRecord exampleStore (circulationOf 1 2 ''borrow'') 0);
          s2 = snd (updateCirculationRecord s1 3
                 (noCirculationUpdates\<lparr> uci_dueDate := Some (Some (2 * msPerDay - msPerDay)) \<rparr>));
          s3 = snd (createCirculationRecord s2 (circulationOf 1 2 ''borrow'') 0);
          s4 = snd (updateCirculationRecord s3 4
                 (noCirculationUpdates\<lparr> uci_dueDate := Some (Some (2 * msPerDay + msPerDay)) \<rparr>))
      in snd (createCirculationRecord s4 (circulationOf 1 2 ''borrow'') 0))"

section \<open>Lemmas about the Map and the routes\<close>

lemma Map_get_set: "Map_get (Map_set m k v) k' = (if k' = k then Some v else Map_get m k')"
  by (simp add: Map_get_def Map_set_def update_conv')

lemma Map_set_twice: "Map_set (Map_set m k v) k v' = Map_set m k v'"
  by (simp add: Map_set_def)

lemma Map_delete_absent: "Map_get m k = None \<Longrightarrow> Map_delete m k = (False, m)"
  by (simp add: Map_delete_def Map_get_def map_of_eq_None_iff)

lemma Map_keys_set: "Map_keys (Map_set m k v) = insert k (Map_keys m)"
  by (simp add: Map_keys_def Map_set_def dom_update)

lemma Map_keys_delete: "Map_keys (snd (Map_delete m k)) \<subseteq> Map_keys m"
  by (auto simp: Map_keys_def Map_delete_def delete_keys)

lemma Map_keys_get: "(k \<in> Map_keys m) = (Map_get m k \<noteq> None)"
  by (simp add: Map_keys_def Map_get_def map_of_eq_None_iff)

lemma Map_values_set_subset: "set (Map_values (Map_set m k v)) \<subseteq> insert v (set (Map_values m))"
  by (induction m) (auto simp: Map_values_def Map_set_def)

lemma Map_values_filter: "Map_values (filter (\<lambda>(i, r). P r) m) = filter P (Map_values m)"
  by (induction m) (auto simp: Map_values_def)

lemma set_map_filter: "set (List.map_filter f xs) = {y. \<exists>x \<in> set xs. f x = Some y}"
  by (induction xs) (auto split: option.splits)

lemma length_map_filter:
  "length (List.map_filter f xs) = length (filter (\<lambda>x. f x \<noteq> None) xs)"
  by (induction xs) (auto split: option.splits)

lemma map_filter_delete:
  assumes "\<And>v. f (k, v) = None"
  shows "List.map_filter f (AList.delete k m) = List.map_filter f m"
  using assms by (induction m) (auto split: option.splits)

lemma map_filter_drop:
  assumes "\<And>x. \<not> Q x \<Longrightarrow> g x = None"
  shows "List.map_filter g (filter (\<lambda>x. Q x \<and> A x) xs) = List.map_filter g (filter A xs)"
  using assms by (induction xs) (auto split: option.splits)

text \<open>The body the two flows post, and the requests they send to registered routes.\<close>

lemma circulationBody:
  "insertCirculationSchema
     [''bookId'' \<mapsto> JNum bookId, ''memberId'' \<mapsto> JNum memberId, ''action'' \<mapsto> JStr action] =
   Some (circulationOf bookId memberId action)"
  by (simp add: insertCirculationSchema_def zNumber_def zString_def zDateNullish_def
      circulationOf_def)

lemma post_circulation:
  "apiRequest (post_api_circulation s
      [''bookId'' \<mapsto> JNum bookId, ''memberId'' \<mapsto> JNum memberId, ''action'' \<mapsto> JStr action] now) =
   (Some (Created (fst (createCirculationRecord s (circulationOf bookId memberId action) now))),
    snd (createCirculationRecord s (circulationOf bookId memberId action) now))"
  by (simp add: circulationBody post_api_circulation_def apiRequest_def case_prod_unfold)

lemma createCirculationRecord_result:
  "fst (createCirculationRecord s (circulationOf bookId memberId action) now) =
     \<lparr> ci_id = currentId s, ci_bookId = bookId, ci_memberId = memberId, ci_action = action,
       ci_date = Some now, ci_dueDate = None, ci_returnDate = None, ci_status = ''active'' \<rparr>"
  by (simp add: createCirculationRecord_def circulationOf_def Let_def)

lemma createCirculationRecord_state:
  "snd (createCirculationRecord s data now) =
     s\<lparr> currentId := currentId s + 1,
        circulation := Map_set (circulation s) (currentId s)
                         (fst (createCirculationRecord s data now)) \<rparr>"
  by (simp add: createCirculationRecord_def Let_def)

lemma put_book:
  "Map_get (books s) i = Some b \<Longrightarrow>
   apiRequest (put_api_books_id s i u) =
     (Some (Ok (spreadBook b u)), s\<lparr> books := Map_set (books s) i (spreadBook b u) \<rparr>)"
  by (simp add: put_api_books_id_def updateBook_def apiRequest_def Let_def)

lemma spread_b_status:
  "spreadBook b (noBookUpdates\<lparr> ub_status := Some x \<rparr>) = b\<lparr> b_status := x \<rparr>"
  by (simp add: spreadBook_def noBookUpdates_def spread_def)

lemma spread_ci_dueDate:
  "spreadCirculation c (noCirculationUpdates\<lparr> uci_dueDate := Some x \<rparr>) = c\<lparr> ci_dueDate := x \<rparr>"
  by (simp add: spreadCirculation_def noCirculationUpdates_def spread_def)

text \<open>The issue flow, step by step, for the two answers of the host.\<close>

lemma unmatched_stops:
  "apiRequest (unmatched_route False requestBody s) = (None, s)"
  by (simp add: unmatched_route_def apiRequest_def)

lemma unmatched_proceeds:
  "apiRequest (unmatched_route True requestBody s) = (Some (Ok ()), s)"
  by (simp add: unmatched_route_def apiRequest_def)

lemma put_book_missing:
  "Map_get (books s) i = None \<Longrightarrow> apiRequest (put_api_books_id s i u) = (None, s)"
  by (simp add: put_api_books_id_def updateBook_def apiRequest_def)

lemma issueBook_stops:
  "issueBook False plus14days s bookId memberId serverNow clientNow =
     (Failure, snd (createCirculationRecord s (circulationOf bookId memberId ''borrow'') serverNow))"
  by (simp add: issueBook_def post_circulation unmatched_stops)

lemma issueBook_proceeds:
  "issueBook True plus14days s bookId memberId serverNow clientNow =
     (case getBook s bookId of
        None \<Rightarrow>
          (Failure, snd (createCirculationRecord s (circulationOf bookId memberId ''borrow'') serverNow))
      | Some book \<Rightarrow>
          (Success,
           (snd (createCirculationRecord s (circulationOf bookId memberId ''borrow'') serverNow))
             \<lparr> books := Map_set (books s) bookId (book\<lparr> b_status := ''issued'' \<rparr>) \<rparr>))"
  by (cases "getBook s bookId")
     (simp_all add: issueBook_def post_circulation unmatched_proceeds getBook_def
        createCirculationRecord_state put_book put_book_missing spread_b_status)

lemma issued_record:
  "getCirculationRecord
     (snd (issueBook unmatchedOk plus14days s bookId memberId serverNow clientNow)) (currentId s) =
   Some (fst (createCirculationRecord s (circulationOf bookId memberId ''borrow'') serverNow))"
  by (cases unmatchedOk; cases "getBook s bookId")
     (simp_all add: issueBook_stops issueBook_proceeds getCirculationRecord_def
        createCirculationRecord_state Map_get_set)

section \<open>C1: a book is issued exactly when an active record names it\<close>

text \<open>
  The insert of DatabaseStorage stamps a return record \<open>returned\<close>; the insert of
  MemStorage stamps every record \<open>active\<close>.
\<close>

lemma db_return_record_is_returned:
  "ci_status (fst (db_createCirculationRecord t (circulationOf b m ''return'') now)) = ''returned''"
  by (simp add: db_createCirculationRecord_def circulationOf_def Let_def)

lemma mem_return_record_is_active:
  "ci_status (fst (createCirculationRecord s (circulationOf b m ''return'') now)) = ''active''"
  by (simp add: createCirculationRecord_result)

text \<open>
  C1. The claim: in every store reached by issuing and returning books, a book is issued
  if and only if an active circulation record names it, and after a return no active
  record names the book. It fails on the store with book 1 and member 2, whatever the host
  answers to the \<open>PUT /api/circulation/:id\<close> of the flows, which no route matches.
  When the answer is an error, issuing book 1 stops after the record is created: record 3
  is active and names the book, and the book is still available. When the answer is a
  success, issuing succeeds and the invariant holds; returning the book then succeeds
  too, the book is available again, record 3 was never set to returned, and the record
  posted for the history (id 4, action return) is stored active: two active records name
  the returned book.
\<close>

theorem flows_break_issued_iff_active:
  "issuedIffActive exampleStore \<and>
   fst (issueBook False plus14days exampleStore 1 2 1000 1000) = Failure \<and>
   map (\<lambda>c. (ci_id c, ci_bookId c, ci_action c, ci_status c))
     (getCirculation (snd (issueBook False plus14days exampleStore 1 2 1000 1000))) =
     [(3, 1, ''borrow'', ''active'')] \<and>
   map_option b_status (getBook (snd (issueBook False plus14days exampleStore 1 2 1000 1000)) 1) =
     Some ''available'' \<and>
   \<not> issuedIffActive (snd (issueBook False plus14days exampleStore 1 2 1000 1000)) \<and>
   issueBook True plus14days exampleStore 1 2 1000 1000 = (Success, issuedStore) \<and>
   issuedIffActive issuedStore \<and>
   fst (returnBook True issuedStore 1 2000) = Success \<and>
   map_option b_status (getBook (snd (returnBook True issuedStore 1 2000)) 1) = Some ''available'' \<and>
   map (\<lambda>c. (ci_id c, ci_bookId c, ci_action c, ci_status c))
     (getCirculation (snd (returnBook True issuedStore 1 2000))) =
     [(3, 1, ''borrow'', ''active''), (4, 1, ''return'', ''active'')] \<and>
   \<not> issuedIffActive (snd (returnBook True issuedStore 1 2000))"
proof -
  have b: "getBook exampleStore 1 = Some (fst (createBook newMemStorage exampleBook 0))"
    by code_simp
  have stop: "snd (issueBook False plus14days exampleStore 1 2 1000 1000) =
              snd (createCirculationRecord exampleStore (circulationOf 1 2 ''borrow'') 1000)"
    by (simp add: issueBook_stops)
  have go: "issueBook True plus14days exampleStore 1 2 1000 1000 = (Success, issuedStore)"
  proof -
    have "issuedStore =
      (snd (createCirculationRecord exampleStore (circulationOf 1 2 ''borrow'') 1000))
        \<lparr> books := Map_set (books exampleStore) 1
             ((fst (createBook newMemStorage exampleBook 0))\<lparr> b_status := ''issued'' \<rparr>) \<rparr>"
      by code_simp
    then show ?thesis
      by (simp add: issueBook_proceeds b)
  qed
  have 1: "issuedIffActive exampleStore"
    by code_simp
  have 2: "fst (issueBook False plus14days exampleStore 1 2 1000 1000) = Failure"
    by (simp add: issueBook_stops)
  have 3: "map (\<lambda>c. (ci_id c, ci_bookId c, ci_action c, ci_status c))
     (getCirculation (snd (createCirculationRecord exampleStore (circulationOf 1 2 ''borrow'') 1000))) =
     [(3, 1, ''borrow'', ''active'')]"
    by code_simp
  have 4: "map_option b_status
     (getBook (snd (createCirculationRecord exampleStore (circulationOf 1 2 ''borrow'') 1000)) 1) =
     Some ''available''"
    by code_simp
  have 5: "\<not> issuedIffActive
     (snd (createCirculationRecord exampleStore (circulationOf 1 2 ''borrow'') 1000))"
    by code_simp
  have 6: "issuedIffActive issuedStore"
    by code_simp
  have 7: "fst (returnBook True issuedStore 1 2000) = Success"
    by code_simp
  have 8: "map_option b_status (getBook (snd (returnBook True issuedStore 1 2000)) 1) = Some ''available''"
    by code_simp
  have 9: "map (\<lambda>c. (ci_id c, ci_bookId c, ci_action c, ci_status c))
     (getCirculation (snd (returnBook True issuedStore 1 2000))) =
     [(3, 1, ''borrow'', ''active''), (4, 1, ''return'', ''active'')]"
    by code_simp
  have 10: "\<not> issuedIffActive (snd (returnBook True issuedStore 1 2000))"
    by code_simp
  show ?thesis
    unfolding stop using 1 2 3 4 5 go 6 7 8 9 10 by blast
qed

section \<open>C2: issuing a book\<close>

text \<open>
  C2. The claim: issuing a book creates a record with action borrow and status active,
  persists on it a due date of the borrow date plus 14 days, and sets the book's status to
  issued. The record is created as claimed, but its due date is never written: the client
  sends the due date to \<open>PUT /api/circulation/:id\<close>, which no route matches, so at every
  store, for every answer of the host and every calendar, the record stored under the new
  id has no due date. When the host answers that request with an error, the flow fails
  there and the book's status is not touched either; so for book 1 of the example store,
  which stays available.
\<close>

theorem issueBook_persists_no_dueDate:
  "getCirculationRecord
     (snd (issueBook unmatchedOk plus14days s bookId memberId serverNow clientNow)) (currentId s) =
     Some \<lparr> ci_id = currentId s, ci_bookId = bookId, ci_memberId = memberId,
            ci_action = ''borrow'', ci_date = Some serverNow, ci_dueDate = None,
            ci_returnDate = None, ci_status = ''active'' \<rparr> \<and>
   fst (issueBook False plus14days s bookId memberId serverNow clientNow) = Failure \<and>
   getBook (snd (issueBook False plus14days s bookId memberId serverNow clientNow)) bookId =
     getBook s bookId \<and>
   map ci_dueDate (getCirculation (snd (issueBook True plus14days exampleStore 1 2 0 1000))) = [None] \<and>
   map ci_dueDate (getCirculation (snd (issueBook False plus14days exampleStore 1 2 0 1000))) = [None] \<and>
   map_option b_status (getBook (snd (issueBook False plus14days exampleStore 1 2 0 1000)) 1) =
     Some ''available''"
proof -
  have 1: "getCirculationRecord
     (snd (issueBook unmatchedOk plus14days s bookId memberId serverNow clientNow)) (currentId s) =
     Some \<lparr> ci_id = currentId s, ci_bookId = bookId, ci_memberId = memberId,
            ci_action = ''borrow'', ci_date = Some serverNow, ci_dueDate = None,
            ci_returnDate = None, ci_status = ''active'' \<rparr>"
    by (simp add: issued_record createCirculationRecord_result)
  have 2: "fst (issueBook False plus14days s bookId memberId serverNow clientNow) = Failure"
    by (simp add: issueBook_stops)
  have 3: "getBook (snd (issueBook False plus14days s bookId memberId serverNow clientNow)) bookId =
     getBook s bookId"
    by (simp add: issueBook_stops createCirculationRecord_state getBook_def)
  have b: "getBook exampleStore 1 = Some (fst (createBook newMemStorage exampleBook 0))"
    by code_simp
  have c: "map ci_dueDate (getCirculation
      (snd (createCirculationRecord exampleStore (circulationOf 1 2 ''borrow'') 0))) = [None]"
    by code_simp
  have 4: "map ci_dueDate (getCirculation (snd (issueBook True plus14days exampleStore 1 2 0 1000))) = [None]"
    using c by (simp add: issueBook_proceeds b getCirculation_def)
  have 5: "map ci_dueDate (getCirculation (snd (issueBook False plus14days exampleStore 1 2 0 1000))) = [None]"
    using c by (simp add: issueBook_stops)
  have e: "map_option b_status (Map_get (books exampleStore) 1) = Some ''available''"
    by code_simp
  have 6: "map_option b_status
      (getBook (snd (issueBook False plus14days exampleStore 1 2 0 1000)) 1) = Some ''available''"
    by (simp add: issueBook_stops createCirculationRecord_state getBook_def e)
  from 1 2 3 4 5 6 show ?thesis by blast
qed

section \<open>C3: the overdue query\<close>

text \<open>
  C3. At every store and time, \<open>getOverdueCirculation\<close> returns exactly the stored
  records that are active and whose due date is present and strictly before the time, in
  the order of the store, and it leaves the store as it was; the query of DatabaseStorage
  selects the same rows. An active record due a day ago is returned, one due in a day is
  not.
\<close>

theorem getOverdueCirculation_exact:
  "getOverdueCirculation s now =
     (filter (\<lambda>c. ci_status c = ''active'' \<and> (\<exists>d. ci_dueDate c = Some d \<and> d < now))
        (getCirculation s), s) \<and>
   db_getOverdueCirculation rows now =
     filter (\<lambda>c. ci_status c = ''active'' \<and> (\<exists>d. ci_dueDate c = Some d \<and> d < now)) rows \<and>
   (c \<in> set (getCirculation s) \<and> ci_status c = ''active'' \<and> ci_dueDate c = Some (now - msPerDay)
      \<longrightarrow> c \<in> set (fst (getOverdueCirculation s now))) \<and>
   (ci_dueDate c = Some (now + msPerDay) \<longrightarrow> c \<notin> set (fst (getOverdueCirculation s now)))"
proof -
  have mem: "(case ci_dueDate r of None \<Rightarrow> False | Some d \<Rightarrow> d < now) =
             (\<exists>d. ci_dueDate r = Some d \<and> d < now)" for r :: Circulation
    by (cases "ci_dueDate r") simp_all
  have db: "(sql_and (Some (ci_status r = ''active'')) (sql_lt (ci_dueDate r) now) = Some True) =
            (ci_status r = ''active'' \<and> (\<exists>d. ci_dueDate r = Some d \<and> d < now))" for r :: Circulation
    by (cases "ci_dueDate r") (auto simp: sql_and_def sql_lt_def)
  have 1: "getOverdueCirculation s now =
     (filter (\<lambda>c. ci_status c = ''active'' \<and> (\<exists>d. ci_dueDate c = Some d \<and> d < now))
        (getCirculation s), s)"
    by (simp add: getOverdueCirculation_def getCirculation_def mem)
  have 2: "db_getOverdueCirculation rows now =
     filter (\<lambda>c. ci_status c = ''active'' \<and> (\<exists>d. ci_dueDate c = Some d \<and> d < now)) rows"
    by (simp add: db_getOverdueCirculation_def db)
  have 3: "c \<in> set (getCirculation s) \<and> ci_status c = ''active'' \<and>
           ci_dueDate c = Some (now - msPerDay) \<longrightarrow> c \<in> set (fst (getOverdueCirculation s now))"
    by (simp add: 1 msPerDay_def)
  have 4: "ci_dueDate c = Some (now + msPerDay) \<longrightarrow> c \<notin> set (fst (getOverdueCirculation s now))"
    by (simp add: 1 msPerDay_def)
  from 1 2 3 4 show ?thesis by blast
qed

theorem getOverdueCirculation_exact_witness:
  "map ci_id (getCirculation dueStore) = [3, 4, 5] \<and>
   map ci_dueDate (getCirculation dueStore) =
     [Some (2 * msPerDay - msPerDay), Some (2 * msPerDay + msPerDay), None] \<and>
   the (getCirculationRecord dueStore 3) \<in> set (fst (getOverdueCirculation dueStore (2 * msPerDay))) \<and>
   the (getCirculationRecord dueStore 4) \<notin> set (fst (getOverdueCirculation dueStore (2 * msPerDay))) \<and>
   snd (getOverdueCirculation dueStore (2 * msPerDay)) = dueStore"
proof -
  have a: "map ci_id (getCirculation dueStore) = [3, 4, 5]"
    by code_simp
  have b: "map ci_dueDate (getCirculation dueStore) =
     [Some (2 * msPerDay - msPerDay), Some (2 * msPerDay + msPerDay), None]"
    by code_simp
  have h3: "the (getCirculationRecord dueStore 3) \<in> set (getCirculation dueStore) \<and>
            ci_status (the (getCirculationRecord dueStore 3)) = ''active'' \<and>
            ci_dueDate (the (getCirculationRecord dueStore 3)) = Some (2 * msPerDay - msPerDay)"
    by code_simp
  have h4: "ci_dueDate (the (getCirculationRecord dueStore 4)) = Some (2 * msPerDay + msPerDay)"
    by code_simp
  have 3: "the (getCirculationRecord dueStore 3) \<in> set (fst (getOverdueCirculation dueStore (2 * msPerDay)))"
    using getOverdueCirculation_exact [of dueStore "2 * msPerDay" _ "the (getCirculationRecord dueStore 3)"] h3
    by blast
  have 4: "the (getCirculationRecord dueStore 4) \<notin> set (fst (getOverdueCirculation dueStore (2 * msPerDay)))"
    using getOverdueCirculation_exact [of dueStore "2 * msPerDay" _ "the (getCirculationRecord dueStore 4)"] h4
    by blast
  have 5: "snd (getOverdueCirculation dueStore (2 * msPerDay)) = dueStore"
    using getOverdueCirculation_exact [of dueStore "2 * msPerDay"] by simp
  from a b 3 4 5 show ?thesis by blast
qed

section \<open>C4: search\<close>

lemma startsWith_iff: "startsWith s sub = (\<exists>after. s = sub @ after)"
  by (induction s sub rule: startsWith.induct) auto

lemma includes_str_iff: "includes_str s sub = (\<exists>before after. s = before @ sub @ after)"
proof (induction s)
  case Nil
  show ?case by simp
next
  case (Cons x xs)
  show ?case
  proof
    assume "includes_str (x # xs) sub"
    then consider "startsWith (x # xs) sub" | "includes_str xs sub" by auto
    then show "\<exists>before after. x # xs = before @ sub @ after"
    proof cases
      case 1
      then obtain after where "x # xs = [] @ sub @ after" by (auto simp: startsWith_iff)
      then show ?thesis by blast
    next
      case 2
      then obtain before after where "xs = before @ sub @ after" using Cons by auto
      then have "x # xs = (x # before) @ sub @ after" by simp
      then show ?thesis by blast
    qed
  next
    assume "\<exists>before after. x # xs = before @ sub @ after"
    then obtain before after where e: "x # xs = before @ sub @ after" by blast
    show "includes_str (x # xs) sub"
    proof (cases before)
      case Nil
      with e have "startsWith (x # xs) sub" by (simp add: startsWith_iff)
      then show ?thesis by simp
    next
      case (Cons y ys)
      with e have "xs = ys @ sub @ after" by simp
      then show ?thesis using Cons.IH by auto
    qed
  qed
qed

text \<open>Over MemStorage the two searches are exact.\<close>

lemma searchBooks_exact:
  "searchBooks s q =
     filter (\<lambda>book. containsIgnoreCase (b_title book) q \<or> containsIgnoreCase (b_author book) q \<or>
                     containsIgnoreCase (b_category book) q) (getBooks s)"
  by (simp add: searchBooks_def getBooks_def containsIgnoreCase_def includes_str_iff Let_def)

lemma searchMembers_exact:
  "searchMembers s q =
     filter (\<lambda>member. containsIgnoreCase (m_fullName member) q \<or>
                       containsIgnoreCase (m_class member) q \<or>
                       containsIgnoreCase (m_registrationNo member) q) (getMembers s)"
  by (simp add: searchMembers_def getMembers_def containsIgnoreCase_def includes_str_iff Let_def)

lemma ali_occurs_in_Ali_Khan: "containsIgnoreCase ''Ali Khan'' ''Ali''"
proof -
  have "toLowerCase ''Ali Khan'' = [] @ toLowerCase ''Ali'' @ '' khan''"
    by code_simp
  then show ?thesis
    unfolding containsIgnoreCase_def by blast
qed

text \<open>
  C4. The claim: every search returns exactly the rows in which the query occurs when
  case is ignored. Over DatabaseStorage it fails: the query is lowered and the column is
  not, and LIKE compares case-sensitively. With the one member Ali Khan in the table, the
  search for \<open>Ali\<close> returns nothing, although the query occurs in the name; the search
  of MemStorage over the same member returns him; and a query of one percent sign,
  which occurs in no field, returns the row.
\<close>

theorem db_search_is_case_sensitive:
  "db_searchMembers [aliKhan] ''Ali'' = [] \<and>
   containsIgnoreCase (m_fullName aliKhan) ''Ali'' \<and>
   searchMembers (newMemStorage\<lparr> members := [(1, aliKhan)] \<rparr>) ''Ali'' = [aliKhan] \<and>
   db_searchMembers [aliKhan] ''ali'' = [] \<and>
   db_searchMembers [aliKhan] ''%'' = [aliKhan] \<and>
   searchMembers (newMemStorage\<lparr> members := [(1, aliKhan)] \<rparr>) ''%'' = []"
proof -
  have 1: "db_searchMembers [aliKhan] ''Ali'' = []" by code_simp
  have 2: "containsIgnoreCase (m_fullName aliKhan) ''Ali''"
    using ali_occurs_in_Ali_Khan by (simp add: aliKhan_def)
  have 3: "searchMembers (newMemStorage\<lparr> members := [(1, aliKhan)] \<rparr>) ''Ali'' = [aliKhan]"
    by code_simp
  have 4: "db_searchMembers [aliKhan] ''ali'' = []" by code_simp
  have 5: "db_searchMembers [aliKhan] ''%'' = [aliKhan]" by code_simp
  have 6: "searchMembers (newMemStorage\<lparr> members := [(1, aliKhan)] \<rparr>) ''%'' = []" by code_simp
  from 1 2 3 4 5 6 show ?thesis by blast
qed

section \<open>C5: the rating of a review\<close>

text \<open>
  C5. The claim: a review whose rating lies outside 1..5 is rejected as a validation error
  and not stored. The insert schema asks only for a number: whatever the rating, the
  request is answered 201 and the review is stored with that rating; so for the rating 6.
\<close>

theorem review_rating_unchecked:
  "post_api_book_reviews s (reviewBody rating) now =
     (Created \<lparr> rv_id = currentId s, rv_bookId = 1, rv_memberId = 2, rv_rating = rating,
                rv_review = ''good'', rv_createdAt = Some now \<rparr>,
      snd (createBookReview s
             \<lparr> irv_bookId = 1, irv_memberId = 2, irv_rating = rating, irv_review = ''good'' \<rparr> now)) \<and>
   statusCode (fst (post_api_book_reviews newMemStorage (reviewBody 6) 0)) = 201 \<and>
   map rv_rating (getBookReviews (snd (post_api_book_reviews newMemStorage (reviewBody 6) 0))) = [6] \<and>
   map rv_rating (getBookReviews (snd (post_api_book_reviews newMemStorage (reviewBody 0) 0))) = [0]"
proof -
  have 1: "post_api_book_reviews s (reviewBody rating) now =
     (Created \<lparr> rv_id = currentId s, rv_bookId = 1, rv_memberId = 2, rv_rating = rating,
                rv_review = ''good'', rv_createdAt = Some now \<rparr>,
      snd (createBookReview s
             \<lparr> irv_bookId = 1, irv_memberId = 2, irv_rating = rating, irv_review = ''good'' \<rparr> now))"
    by (simp add: post_api_book_reviews_def insertBookReviewSchema_def reviewBody_def
        zNumber_def zString_def createBookReview_def Let_def)
  have 2: "statusCode (fst (post_api_book_reviews newMemStorage (reviewBody 6) 0)) = 201"
    by code_simp
  have 3: "map rv_rating (getBookReviews (snd (post_api_book_reviews newMemStorage (reviewBody 6) 0))) = [6]"
    by code_simp
  have 4: "map rv_rating (getBookReviews (snd (post_api_book_reviews newMemStorage (reviewBody 0) 0))) = [0]"
    by code_simp
  from 1 2 3 4 show ?thesis by blast
qed

section \<open>C6: unique registration numbers and category names\<close>

text \<open>
  C6. The claim: no two members share a registration number, no two categories a name,
  and the two creations keep it so. MemStorage checks nothing: creating the same member
  twice, or the same category twice, stores both.
\<close>

theorem duplicates_are_stored:
  "map m_registrationNo
     (getMembers (snd (createMember (snd (createMember newMemStorage exampleMember 0)) exampleMember 1))) =
     [''R1'', ''R1''] \<and>
   map m_id
     (getMembers (snd (createMember (snd (createMember newMemStorage exampleMember 0)) exampleMember 1))) =
     [1, 2] \<and>
   map cat_name
     (getCategories (snd (createCategory (snd (createCategory newMemStorage
        \<lparr> icat_name = ''Hadith'' \<rparr> 0)) \<lparr> icat_name = ''Hadith'' \<rparr> 1))) =
     [''Hadith'', ''Hadith'']"
  by code_simp

section \<open>C9: updating and deleting an id that is not stored\<close>

text \<open>
  C9. For an id that is not in the store, every update method returns the not-found
  outcome and every delete method returns false, with the store unchanged; the routes
  that call them answer 404.
\<close>

theorem not_found_is_a_no_op:
  "(getBook s i = None \<longrightarrow>
      updateBook s i ub = (None, s) \<and> deleteBook s i = (False, s) \<and>
      put_api_books_id s i ub = (NotFound ''Book not found'', s) \<and>
      delete_api_books_id s i = (NotFound ''Book not found'', s) \<and>
      statusCode (fst (put_api_books_id s i ub)) = 404 \<and>
      statusCode (fst (delete_api_books_id s i)) = 404) \<and>
   (getMember s i = None \<longrightarrow>
      updateMember s i um = (None, s) \<and> deleteMember s i = (False, s)) \<and>
   (Map_get (categories s) i = None \<longrightarrow>
      updateCategory s i uc = (None, s) \<and> deleteCategory s i = (False, s) \<and>
      delete_api_categories_id s i = (NotFound ''Category not found'', s) \<and>
      statusCode (fst (delete_api_categories_id s i)) = 404) \<and>
   (Map_get (bookSuggestions s) i = None \<longrightarrow> updateBookSuggestion s i ug = (None, s)) \<and>
   (Map_get (bookReviews s) i = None \<longrightarrow> updateBookReview s i ur = (None, s)) \<and>
   (getCirculationRecord s i = None \<longrightarrow> updateCirculationRecord s i uci = (None, s))"
  by (simp add: getBook_def getMember_def getCirculationRecord_def
      updateBook_def deleteBook_def put_api_books_id_def delete_api_books_id_def
      updateMember_def deleteMember_def updateCategory_def deleteCategory_def
      delete_api_categories_id_def updateBookSuggestion_def updateBookReview_def
      updateCirculationRecord_def Map_delete_absent)

theorem not_found_is_a_no_op_witness:
  "updateBook exampleStore 7 (noBookUpdates\<lparr> ub_status := Some ''issued'' \<rparr>) = (None, exampleStore) \<and>
   deleteBook exampleStore 7 = (False, exampleStore) \<and>
   statusCode (fst (put_api_books_id exampleStore 7 (noBookUpdates\<lparr> ub_status := Some ''issued'' \<rparr>))) = 404 \<and>
   snd (put_api_books_id exampleStore 7 (noBookUpdates\<lparr> ub_status := Some ''issued'' \<rparr>)) = exampleStore \<and>
   statusCode (fst (delete_api_books_id exampleStore 7)) = 404 \<and>
   snd (delete_api_books_id exampleStore 7) = exampleStore \<and>
   deleteMember exampleStore 7 = (False, exampleStore) \<and>
   deleteCategory exampleStore 7 = (False, exampleStore) \<and>
   updateCirculationRecord exampleStore 7 noCirculationUpdates = (None, exampleStore)"
proof -
  have h: "getBook exampleStore 7 = None" "getMember exampleStore 7 = None"
    "Map_get (categories exampleStore) 7 = None" "getCirculationRecord exampleStore 7 = None"
    by code_simp+
  show ?thesis
    using not_found_is_a_no_op
      [of exampleStore 7 "noBookUpdates\<lparr> ub_status := Some ''issued'' \<rparr>" _ _ _ _ noCirculationUpdates]
      h
    by simp
qed

section \<open>C7: the most read books\<close>

lemma countBorrows_snoc:
  "countBorrows key (records @ [r]) = countStep key (countBorrows key records) r"
  by (simp add: countBorrows_def)

lemma countBorrows_distinct: "distinct (map fst (countBorrows key records))"
proof (induction records rule: rev_induct)
  case Nil
  show ?case by (simp add: countBorrows_def)
next
  case (snoc r records)
  then show ?case
    by (simp add: countBorrows_snoc countStep_def Map_set_def distinct_update)
qed

lemma countBorrows_lookup:
  "Map_get (countBorrows key records) k =
     (if borrowsOf key records k = 0 then None else Some (borrowsOf key records k))"
proof (induction records rule: rev_induct)
  case Nil
  show ?case by (simp add: countBorrows_def borrowsOf_def Map_get_def)
next
  case (snoc r records)
  then show ?case
    by (auto simp: countBorrows_snoc countStep_def Map_set_def Map_get_def update_conv'
        borrowsOf_def)
qed

lemma countBorrows_drop:
  "countBorrows key (filter (\<lambda>r. key r \<noteq> k) records) = AList.delete k (countBorrows key records)"
proof (induction records rule: rev_induct)
  case Nil
  show ?case by (simp add: countBorrows_def)
next
  case (snoc r records)
  show ?case
  proof (cases "key r = k")
    case True
    then show ?thesis
      using snoc by (simp add: countBorrows_snoc countStep_def Map_set_def delete_update_same)
  next
    case False
    then show ?thesis
      using snoc
      by (simp add: countBorrows_snoc countStep_def Map_set_def Map_get_def delete_update)
  qed
qed

text \<open>An association list with distinct keys that maps two keys has two entries.\<close>

lemma alist_two:
  assumes d: "distinct (map fst xs)" and m: "map_of xs = [a \<mapsto> x, b \<mapsto> y]" and ab: "a \<noteq> b"
  shows "xs = [(a, x), (b, y)] \<or> xs = [(b, y), (a, x)]"
proof -
  have mem: "(p \<in> set xs) = (p = (a, x) \<or> p = (b, y))" for p
  proof -
    have "(p \<in> set xs) = (map_of xs (fst p) = Some (snd p))"
      using d by (cases p) simp
    also have "\<dots> = (p = (a, x) \<or> p = (b, y))"
      using ab by (cases p) (auto simp: m)
    finally show ?thesis .
  qed
  have s: "set xs = {(a, x), (b, y)}" using mem by auto
  have dx: "distinct xs" using d by (rule distinct_map[THEN iffD1, THEN conjunct1])
  have "length xs = card (set xs)" using dx by (simp add: distinct_card)
  also have "\<dots> = 2" using ab by (simp add: s)
  finally obtain p q where pq: "xs = [p, q]"
    by (auto simp: length_Suc_conv numeral_2_eq_2)
  from s pq dx show ?thesis by (auto simp: doubleton_eq_iff)
qed

lemma getMostReadBooks_alt:
  "getMostReadBooks s = sort_key (\<lambda>r. - mr_borrowCount r)
      (List.map_filter (mostReadRow s) (countBorrows ci_bookId (getCirculation s)))"
  by (simp add: getMostReadBooks_def mostReadRow_def getCirculation_def)

lemma mostRead_sorted:
  "sorted_wrt (\<lambda>a b. mr_borrowCount b \<le> mr_borrowCount a) (getMostReadBooks s)"
proof -
  have "sorted (map (\<lambda>r. - mr_borrowCount r) (getMostReadBooks s))"
    unfolding getMostReadBooks_alt by (rule sorted_sort_key)
  then show ?thesis
    by (simp add: sorted_map sorted_wrt_iff_nth_less)
qed

lemma mostRead_set:
  "set (getMostReadBooks s) =
     {\<lparr> mr_book = b, mr_borrowCount = borrowsOf ci_bookId (getCirculation s) k \<rparr> | k b.
        getBook s k = Some b \<and> 0 < borrowsOf ci_bookId (getCirculation s) k}"
proof -
  let ?m = "countBorrows ci_bookId (getCirculation s)"
  let ?n = "borrowsOf ci_bookId (getCirculation s)"
  have mem: "((k, c) \<in> set ?m) = (0 < ?n k \<and> c = ?n k)" for k c
  proof -
    have "((k, c) \<in> set ?m) = (Map_get ?m k = Some c)"
      using countBorrows_distinct[of ci_bookId "getCirculation s"] by (simp add: Map_get_def)
    also have "\<dots> = (0 < ?n k \<and> c = ?n k)"
      by (auto simp: countBorrows_lookup borrowsOf_def)
    finally show ?thesis .
  qed
  have "set (getMostReadBooks s) = {y. \<exists>p \<in> set ?m. mostReadRow s p = Some y}"
    by (simp add: getMostReadBooks_alt set_map_filter)
  also have "\<dots> = {\<lparr> mr_book = b, mr_borrowCount = ?n k \<rparr> | k b. getBook s k = Some b \<and> 0 < ?n k}"
    (is "?L = ?R")
  proof (intro set_eqI iffI)
    fix y assume "y \<in> ?L"
    then obtain k c where kc: "(k, c) \<in> set ?m" and y: "mostReadRow s (k, c) = Some y"
      by auto
    from kc have c: "0 < ?n k" "c = ?n k" by (simp_all add: mem)
    from y obtain b where "getBook s k = Some b" "y = \<lparr> mr_book = b, mr_borrowCount = c \<rparr>"
      by (auto simp: mostReadRow_def getBook_def split: option.splits)
    with c show "y \<in> ?R" by blast
  next
    fix y assume "y \<in> ?R"
    then obtain k b where k: "getBook s k = Some b" "0 < ?n k"
      and y: "y = \<lparr> mr_book = b, mr_borrowCount = ?n k \<rparr>"
      by blast
    from k have "(k, ?n k) \<in> set ?m" by (simp add: mem)
    moreover from k y have "mostReadRow s (k, ?n k) = Some y"
      by (simp add: mostReadRow_def getBook_def)
    ultimately show "y \<in> ?L" by blast
  qed
  finally show ?thesis .
qed

lemma mostRead_length:
  "length (getMostReadBooks s) =
     card {k. getBook s k \<noteq> None \<and> 0 < borrowsOf ci_bookId (getCirculation s) k}"
proof -
  let ?m = "countBorrows ci_bookId (getCirculation s)"
  let ?n = "borrowsOf ci_bookId (getCirculation s)"
  let ?kept = "filter (\<lambda>p. mostReadRow s p \<noteq> None) ?m"
  have d: "distinct (map fst ?kept)"
    using countBorrows_distinct[of ci_bookId "getCirculation s"] by (simp add: distinct_map_filter)
  have keys: "fst ` set ?m = {k. 0 < ?n k}"
  proof -
    have "(k \<in> fst ` set ?m) = (0 < ?n k)" for k
    proof -
      have "(k \<in> fst ` set ?m) = (Map_get ?m k \<noteq> None)"
        by (simp add: Map_get_def map_of_eq_None_iff)
      also have "\<dots> = (0 < ?n k)"
        by (simp add: countBorrows_lookup borrowsOf_def)
      finally show ?thesis .
    qed
    then show ?thesis by auto
  qed
  have kept: "(mostReadRow s p \<noteq> None) = (getBook s (fst p) \<noteq> None)" for p
    by (cases p) (simp add: mostReadRow_def getBook_def split: option.splits)
  have "set (map fst ?kept) = {k \<in> fst ` set ?m. getBook s k \<noteq> None}"
    unfolding kept by force
  also have "\<dots> = {k. getBook s k \<noteq> None \<and> 0 < ?n k}"
    unfolding keys by blast
  finally have "card {k. getBook s k \<noteq> None \<and> 0 < ?n k} = card (set (map fst ?kept))"
    by simp
  also have "\<dots> = length (map fst ?kept)"
    using d by (rule distinct_card)
  finally show ?thesis
    by (simp add: getMostReadBooks_alt length_map_filter)
qed

lemma mostRead_example:
  assumes a: "borrowsOf ci_bookId (getCirculation s) a = 3"
      and b: "borrowsOf ci_bookId (getCirculation s) b = 1"
      and others: "\<forall>k. k \<noteq> a \<and> k \<noteq> b \<longrightarrow> borrowsOf ci_bookId (getCirculation s) k = 0"
      and A: "getBook s a = Some A" and B: "getBook s b = Some B"
  shows "getMostReadBooks s =
           [\<lparr> mr_book = A, mr_borrowCount = 3 \<rparr>, \<lparr> mr_book = B, mr_borrowCount = 1 \<rparr>]"
proof -
  let ?m = "countBorrows ci_bookId (getCirculation s)"
  have ab: "a \<noteq> b" using a b by auto
  have "map_of ?m k = [a \<mapsto> 3, b \<mapsto> 1] k" for k
    using countBorrows_lookup[of ci_bookId "getCirculation s" k] a b others ab
    by (auto simp: Map_get_def)
  then have "map_of ?m = [a \<mapsto> 3, b \<mapsto> 1]" by (rule ext)
  then have "?m = [(a, 3), (b, 1)] \<or> ?m = [(b, 1), (a, 3)]"
    using alist_two[OF countBorrows_distinct _ ab] by blast
  then show ?thesis
  proof
    assume "?m = [(a, 3), (b, 1)]"
    then show ?thesis
      using A B by (simp add: getMostReadBooks_alt mostReadRow_def getBook_def)
  next
    assume "?m = [(b, 1), (a, 3)]"
    then show ?thesis
      using A B by (simp add: getMostReadBooks_alt mostReadRow_def getBook_def)
  qed
qed

text \<open>
  C7. \<open>getMostReadBooks\<close> returns its rows in descending order of borrow count. The rows
  are exactly the pairs of a stored book with the number of borrow records that name its
  id, for the ids that at least one borrow record names, one row for each such id. When
  the history has exactly three borrows of book \<open>a\<close> and one of book \<open>b\<close>, both stored,
  the result is the row of \<open>a\<close> with 3 followed by the row of \<open>b\<close> with 1, whatever the
  order of the records.
\<close>

theorem getMostReadBooks_grouped_and_sorted:
  "sorted_wrt (\<lambda>x y. mr_borrowCount y \<le> mr_borrowCount x) (getMostReadBooks s) \<and>
   set (getMostReadBooks s) =
     {\<lparr> mr_book = book, mr_borrowCount = borrowsOf ci_bookId (getCirculation s) k \<rparr> | k book.
        getBook s k = Some book \<and> 0 < borrowsOf ci_bookId (getCirculation s) k} \<and>
   length (getMostReadBooks s) =
     card {k. getBook s k \<noteq> None \<and> 0 < borrowsOf ci_bookId (getCirculation s) k} \<and>
   (borrowsOf ci_bookId (getCirculation s) a = 3 \<and>
    borrowsOf ci_bookId (getCirculation s) b = 1 \<and>
    (\<forall>k. k \<noteq> a \<and> k \<noteq> b \<longrightarrow> borrowsOf ci_bookId (getCirculation s) k = 0) \<and>
    getBook s a = Some A \<and> getBook s b = Some B \<longrightarrow>
    getMostReadBooks s =
      [\<lparr> mr_book = A, mr_borrowCount = 3 \<rparr>, \<lparr> mr_book = B, mr_borrowCount = 1 \<rparr>])"
  using mostRead_sorted [of s] mostRead_set [of s] mostRead_length [of s]
    mostRead_example [of s a b A B]
  by blast

theorem getMostReadBooks_grouped_and_sorted_witness:
  "map (\<lambda>c. (ci_bookId c, ci_action c)) (getCirculation historyStore) =
     [(2, ''borrow''), (1, ''borrow''), (1, ''return''), (1, ''borrow''), (1, ''borrow'')] \<and>
   getMostReadBooks historyStore =
     [\<lparr> mr_book = the (getBook historyStore 1), mr_borrowCount = 3 \<rparr>,
      \<lparr> mr_book = the (getBook historyStore 2), mr_borrowCount = 1 \<rparr>] \<and>
   map b_title (map mr_book (getMostReadBooks historyStore)) = [''Riyad'', ''Alfiyya'']"
proof -
  have h: "map (\<lambda>c. (ci_bookId c, ci_action c)) (getCirculation historyStore) =
     [(2, ''borrow''), (1, ''borrow''), (1, ''return''), (1, ''borrow''), (1, ''borrow'')]"
    by code_simp
  have n: "borrowsOf ci_bookId (getCirculation historyStore) k =
             int (length (filter (\<lambda>p. snd p = ''borrow'' \<and> fst p = k)
               (map (\<lambda>c. (ci_bookId c, ci_action c)) (getCirculation historyStore))))" for k
    by (simp add: borrowsOf_def filter_map comp_def)
  have a: "borrowsOf ci_bookId (getCirculation historyStore) 1 = 3"
    and b: "borrowsOf ci_bookId (getCirculation historyStore) 2 = 1"
    and o: "\<forall>k. k \<noteq> 1 \<and> k \<noteq> 2 \<longrightarrow> borrowsOf ci_bookId (getCirculation historyStore) k = 0"
    unfolding n h by auto
  have A: "getBook historyStore 1 = Some (the (getBook historyStore 1))"
    and B: "getBook historyStore 2 = Some (the (getBook historyStore 2))"
    by code_simp+
  have r: "getMostReadBooks historyStore =
     [\<lparr> mr_book = the (getBook historyStore 1), mr_borrowCount = 3 \<rparr>,
      \<lparr> mr_book = the (getBook historyStore 2), mr_borrowCount = 1 \<rparr>]"
    using getMostReadBooks_grouped_and_sorted
      [of historyStore 1 2 "the (getBook historyStore 1)" "the (getBook historyStore 2)"]
      a b o A B
    by blast
  have t: "b_title (the (getBook historyStore 1)) = ''Riyad''"
    "b_title (the (getBook historyStore 2)) = ''Alfiyya''"
    by code_simp+
  from h r t show ?thesis by simp
qed

section \<open>C8: creating a book\<close>







lemma keysBelowCounter_update:
  assumes "keysBelowCounter s"
  shows "keysBelowCounter (snd (updateBook s i ub))"
    and "keysBelowCounter (snd (updateMember s i um))"
    and "keysBelowCounter (snd (updateCategory s i uc))"
    and "keysBelowCounter (snd (updateBookSuggestion s i ug))"
    and "keysBelowCounter (snd (updateBookReview s i ur))"
    and "keysBelowCounter (snd (updateCirculationRecord s i uci))"
  using assms
  by (auto simp: keysBelowCounter_def storeKeys_def ball_Un Map_keys_set Map_keys_get Let_def
      updateBook_def updateMember_def updateCategory_def updateBookSuggestion_def
      updateBookReview_def updateCirculationRecord_def split: option.splits)

lemma keysBelowCounter_delete:
  assumes "keysBelowCounter s"
  shows "keysBelowCounter (snd (deleteBook s i))"
    and "keysBelowCounter (snd (deleteMember s i))"
    and "keysBelowCounter (snd (deleteCategory s i))"
  using assms Map_keys_delete[of "books s" i] Map_keys_delete[of "members s" i]
    Map_keys_delete[of "categories s" i]
  by (auto simp: keysBelowCounter_def storeKeys_def ball_Un deleteBook_def deleteMember_def
      deleteCategory_def split: prod.splits)

lemma idsBelowCounter_new: "idsBelowCounter newMemStorage"
  by (simp add: idsBelowCounter_def storeIds_def newMemStorage_def Map_values_def)


lemma Map_values_delete_subset: "set (Map_values (snd (Map_delete m k))) \<subseteq> set (Map_values m)"
  by (auto simp: Map_values_def Map_delete_def AList.delete_eq)

lemma Map_get_in_values: "Map_get m k = Some v \<Longrightarrow> v \<in> set (Map_values m)"
  by (auto simp: Map_get_def Map_values_def dest: map_of_SomeD intro: rev_image_eqI)

text \<open>
  The id fields stay below the counter under every creation, every deletion and every
  update whose body carries no \<open>id\<close>.
\<close>

lemma ids_after_set:
  "f ` set (Map_values (Map_set m k v)) \<subseteq> insert (f v) (f ` set (Map_values m))"
  using Map_values_set_subset[of m k v] by blast

lemma idsBelowCounter_step:
  assumes "storeIds s' \<subseteq> insert (currentId s) (storeIds s)"
    and "currentId s' = currentId s + 1" and "idsBelowCounter s"
  shows "idsBelowCounter s'"
  using assms by (fastforce simp: idsBelowCounter_def)

lemma idsBelowCounter_createMember:
  assumes "idsBelowCounter s"
  shows "idsBelowCounter (snd (createMember s m now))"
proof (rule idsBelowCounter_step[OF _ _ assms])
  show "storeIds (snd (createMember s m now)) \<subseteq> insert (currentId s) (storeIds s)"
    using ids_after_set[of m_id "members s" "currentId s" "fst (createMember s m now)"]
    by (auto simp: storeIds_def createMember_def Let_def)
  show "currentId (snd (createMember s m now)) = currentId s + 1"
    by (simp add: createMember_def Let_def)
qed

lemma idsBelowCounter_createCategory:
  assumes "idsBelowCounter s"
  shows "idsBelowCounter (snd (createCategory s c now))"
proof (rule idsBelowCounter_step[OF _ _ assms])
  show "storeIds (snd (createCategory s c now)) \<subseteq> insert (currentId s) (storeIds s)"
    using ids_after_set[of cat_id "categories s" "currentId s" "fst (createCategory s c now)"]
    by (auto simp: storeIds_def createCategory_def Let_def)
  show "currentId (snd (createCategory s c now)) = currentId s + 1"
    by (simp add: createCategory_def Let_def)
qed

lemma idsBelowCounter_createBookSuggestion:
  assumes "idsBelowCounter s"
  shows "idsBelowCounter (snd (createBookSuggestion s g now))"
proof (rule idsBelowCounter_step[OF _ _ assms])
  show "storeIds (snd (createBookSuggestion s g now)) \<subseteq> insert (currentId s) (storeIds s)"
    using ids_after_set[of sg_id "bookSuggestions s" "currentId s"
        "fst (createBookSuggestion s g now)"]
    by (auto simp: storeIds_def createBookSuggestion_def Let_def)
  show "currentId (snd (createBookSuggestion s g now)) = currentId s + 1"
    by (simp add: createBookSuggestion_def Let_def)
qed

lemma idsBelowCounter_createBookReview:
  assumes "idsBelowCounter s"
  shows "idsBelowCounter (snd (createBookReview s r now))"
proof (rule idsBelowCounter_step[OF _ _ assms])
  show "storeIds (snd (createBookReview s r now)) \<subseteq> insert (currentId s) (storeIds s)"
    using ids_after_set[of rv_id "bookReviews s" "currentId s" "fst (createBookReview s r now)"]
    by (auto simp: storeIds_def createBookReview_def Let_def)
  show "currentId (snd (createBookReview s r now)) = currentId s + 1"
    by (simp add: createBookReview_def Let_def)
qed

lemma idsBelowCounter_createCirculationRecord:
  assumes "idsBelowCounter s"
  shows "idsBelowCounter (snd (createCirculationRecord s ci now))"
proof (rule idsBelowCounter_step[OF _ _ assms])
  show "storeIds (snd (createCirculationRecord s ci now)) \<subseteq> insert (currentId s) (storeIds s)"
    using ids_after_set[of ci_id "circulation s" "currentId s"
        "fst (createCirculationRecord s ci now)"]
    by (auto simp: storeIds_def createCirculationRecord_def Let_def)
  show "currentId (snd (createCirculationRecord s ci now)) = currentId s + 1"
    by (simp add: createCirculationRecord_def Let_def)
qed

lemma idsBelowCounter_delete:
  assumes "idsBelowCounter s"
  shows "idsBelowCounter (snd (deleteBook s i))"
    and "idsBelowCounter (snd (deleteMember s i))"
    and "idsBelowCounter (snd (deleteCategory s i))"
  using assms Map_values_delete_subset[of "books s" i] Map_values_delete_subset[of "members s" i]
    Map_values_delete_subset[of "categories s" i]
  by (auto simp: idsBelowCounter_def storeIds_def ball_Un deleteBook_def deleteMember_def
      deleteCategory_def split: prod.splits)

lemma idsBelowCounter_updateBook:
  assumes "idsBelowCounter s" and "ub_id u = None"
  shows "idsBelowCounter (snd (updateBook s i u))"
proof (cases "Map_get (books s) i")
  case None
  then show ?thesis using assms by (simp add: updateBook_def)
next
  case (Some book)
  have "b_id (spreadBook book u) = b_id book"
    using assms(2) by (simp add: spreadBook_def spread_def)
  moreover have "b_id book \<in> storeIds s"
    using Map_get_in_values[OF Some] by (auto simp: storeIds_def)
  ultimately show ?thesis
    using assms(1) Some Map_values_set_subset[of "books s" i "spreadBook book u"]
    by (auto simp: idsBelowCounter_def storeIds_def ball_Un updateBook_def Let_def)
qed




section \<open>C10: rows whose book or member is gone\<close>

lemma mostRead_drop:
  assumes "getBook s k = None"
  shows "getMostReadBooks s = getMostReadBooks (withoutBookRecords s k)"
proof -
  have "List.map_filter (mostReadRow s) (AList.delete k (countBorrows ci_bookId (getCirculation s))) =
        List.map_filter (mostReadRow s) (countBorrows ci_bookId (getCirculation s))"
    using assms by (intro map_filter_delete) (simp add: mostReadRow_def getBook_def)
  moreover have "mostReadRow (withoutBookRecords s k) = mostReadRow s"
    by (simp add: mostReadRow_def withoutBookRecords_def)
  moreover have "getCirculation (withoutBookRecords s k) =
                 filter (\<lambda>r. ci_bookId r \<noteq> k) (getCirculation s)"
    by (simp add: getCirculation_def withoutBookRecords_def Map_values_filter)
  ultimately show ?thesis
    by (simp add: getMostReadBooks_alt countBorrows_drop)
qed

lemma activeReaders_drop:
  assumes "getMember s k = None"
  shows "getMostActiveReaders s = getMostActiveReaders (withoutMemberRecords s k)"
proof -
  let ?f = "\<lambda>(memberId, count). case Map_get (members s) memberId of
               None \<Rightarrow> None
             | Some member \<Rightarrow> Some \<lparr> ar_member = member, ar_borrowCount = count \<rparr>"
  have "List.map_filter ?f (AList.delete k (countBorrows ci_memberId (Map_values (circulation s)))) =
        List.map_filter ?f (countBorrows ci_memberId (Map_values (circulation s)))"
    using assms by (intro map_filter_delete) (simp add: getMember_def)
  then show ?thesis
    by (simp add: getMostActiveReaders_def withoutMemberRecords_def Map_values_filter
        countBorrows_drop)
qed

lemma issued_drop_book:
  assumes "getBook s k = None"
  shows "getIssuedBooks s = getIssuedBooks (withoutBookRecords s k)"
proof -
  let ?g = "\<lambda>record.
      case (Map_get (books s) (ci_bookId record), Map_get (members s) (ci_memberId record)) of
        (Some book, Some member) \<Rightarrow>
          Some \<lparr> is_book = book, is_member = member, is_dueDate = ci_dueDate record \<rparr>
      | _ \<Rightarrow> None"
  have "List.map_filter ?g
          (filter (\<lambda>x. ci_bookId x \<noteq> k \<and> ci_status x = ''active'') (Map_values (circulation s))) =
        List.map_filter ?g (filter (\<lambda>x. ci_status x = ''active'') (Map_values (circulation s)))"
    using assms by (intro map_filter_drop) (simp add: getBook_def)
  then show ?thesis
    by (simp add: getIssuedBooks_def getActiveCirculation_def withoutBookRecords_def
        Map_values_filter)
qed

lemma issued_drop_member:
  assumes "getMember s k = None"
  shows "getIssuedBooks s = getIssuedBooks (withoutMemberRecords s k)"
proof -
  let ?g = "\<lambda>record.
      case (Map_get (books s) (ci_bookId record), Map_get (members s) (ci_memberId record)) of
        (Some book, Some member) \<Rightarrow>
          Some \<lparr> is_book = book, is_member = member, is_dueDate = ci_dueDate record \<rparr>
      | _ \<Rightarrow> None"
  have "List.map_filter ?g
          (filter (\<lambda>x. ci_memberId x \<noteq> k \<and> ci_status x = ''active'') (Map_values (circulation s))) =
        List.map_filter ?g (filter (\<lambda>x. ci_status x = ''active'') (Map_values (circulation s)))"
    using assms by (intro map_filter_drop) (simp add: getMember_def split: option.splits)
  then show ?thesis
    by (simp add: getIssuedBooks_def getActiveCirculation_def withoutMemberRecords_def
        Map_values_filter)
qed

lemma deleted_is_gone:
  "getBook (snd (deleteBook s k)) k = None"
  "getMember (snd (deleteMember s k)) k = None"
  by (simp_all add: getBook_def getMember_def deleteBook_def deleteMember_def Map_delete_def
      Map_get_def delete_conv')

lemma mostRead_rows_are_stored:
  "\<forall>row \<in> set (getMostReadBooks s). \<exists>i. getBook s i = Some (mr_book row)"
proof
  fix row assume "row \<in> set (getMostReadBooks s)"
  then obtain p where "mostReadRow s p = Some row"
    by (auto simp: getMostReadBooks_alt set_map_filter)
  then have "getBook s (fst p) = Some (mr_book row)"
    by (cases p) (auto simp: mostReadRow_def getBook_def split: option.splits)
  then show "\<exists>i. getBook s i = Some (mr_book row)" ..
qed

lemma activeReaders_rows_are_stored:
  "\<forall>row \<in> set (getMostActiveReaders s). \<exists>i. getMember s i = Some (ar_member row)"
proof
  fix row assume "row \<in> set (getMostActiveReaders s)"
  then obtain k c where
    "(case Map_get (members s) k of None \<Rightarrow> None
      | Some member \<Rightarrow> Some \<lparr> ar_member = member, ar_borrowCount = c \<rparr>) = Some row"
    by (auto simp: getMostActiveReaders_def set_map_filter)
  then have "getMember s k = Some (ar_member row)"
    by (auto simp: getMember_def split: option.splits)
  then show "\<exists>i. getMember s i = Some (ar_member row)" ..
qed

lemma issued_rows_are_stored:
  "\<forall>row \<in> set (getIssuedBooks s).
      (\<exists>i. getBook s i = Some (is_book row)) \<and> (\<exists>i. getMember s i = Some (is_member row))"
proof
  fix row assume "row \<in> set (getIssuedBooks s)"
  then obtain r :: Circulation where
    "(case (Map_get (books s) (ci_bookId r), Map_get (members s) (ci_memberId r)) of
        (Some book, Some member) \<Rightarrow>
          Some \<lparr> is_book = book, is_member = member, is_dueDate = ci_dueDate r \<rparr>
      | _ \<Rightarrow> None) = Some row"
    unfolding getIssuedBooks_def set_map_filter by blast
  then have "getBook s (ci_bookId r) = Some (is_book row) \<and>
             getMember s (ci_memberId r) = Some (is_member row)"
    by (auto simp: getBook_def getMember_def split: option.splits)
  then show "(\<exists>i. getBook s i = Some (is_book row)) \<and> (\<exists>i. getMember s i = Some (is_member row))"
    by blast
qed

text \<open>
  C10. When no book is stored under \<open>k\<close>, the circulation records that name book \<open>k\<close>
  contribute nothing to \<open>getMostReadBooks\<close> and \<open>getIssuedBooks\<close>: both return what they
  return on the store without those records. Likewise for a member and
  \<open>getMostActiveReaders\<close> and \<open>getIssuedBooks\<close>. After \<open>deleteBook\<close> and \<open>deleteMember\<close>
  nothing is stored under the id. Every row the three queries return carries a book or a
  member that is stored.
\<close>

theorem analytics_omit_missing:
  "(getBook s k = None \<longrightarrow>
      getMostReadBooks s = getMostReadBooks (withoutBookRecords s k) \<and>
      getIssuedBooks s = getIssuedBooks (withoutBookRecords s k)) \<and>
   (getMember s k = None \<longrightarrow>
      getMostActiveReaders s = getMostActiveReaders (withoutMemberRecords s k) \<and>
      getIssuedBooks s = getIssuedBooks (withoutMemberRecords s k)) \<and>
   getBook (snd (deleteBook s k)) k = None \<and>
   getMember (snd (deleteMember s k)) k = None \<and>
   (\<forall>row \<in> set (getMostReadBooks s). \<exists>i. getBook s i = Some (mr_book row)) \<and>
   (\<forall>row \<in> set (getMostActiveReaders s). \<exists>i. getMember s i = Some (ar_member row)) \<and>
   (\<forall>row \<in> set (getIssuedBooks s).
      (\<exists>i. getBook s i = Some (is_book row)) \<and> (\<exists>i. getMember s i = Some (is_member row)))"
  using mostRead_drop [of s k] issued_drop_book [of s k] activeReaders_drop [of s k]
    issued_drop_member [of s k] deleted_is_gone [of s k] mostRead_rows_are_stored [of s]
    activeReaders_rows_are_stored [of s] issued_rows_are_stored [of s]
  by blast

theorem analytics_omit_missing_witness:
  "map (\<lambda>c. (ci_bookId c, ci_action c, ci_status c)) (getCirculation orphanStore) =
     [(1, ''borrow'', ''active'')] \<and>
   length (getMostReadBooks issuedStore) = 1 \<and>
   length (getIssuedBooks issuedStore) = 1 \<and>
   getBook orphanStore 1 = None \<and>
   getMostReadBooks orphanStore = [] \<and>
   getIssuedBooks orphanStore = [] \<and>
   length (getMostActiveReaders orphanStore) = 1 \<and>
   getMostActiveReaders (snd (deleteMember orphanStore 2)) = []"
proof -
  have h: "map (\<lambda>c. (ci_bookId c, ci_action c, ci_status c)) (getCirculation orphanStore) =
     [(1, ''borrow'', ''active'')]"
    by code_simp
  have before: "length (getMostReadBooks issuedStore) = 1" "length (getIssuedBooks issuedStore) = 1"
    by code_simp+
  have gone: "getBook orphanStore 1 = None"
    unfolding orphanStore_def using analytics_omit_missing [of issuedStore 1] by blast
  have e: "getMostReadBooks (withoutBookRecords orphanStore 1) = []"
    "getIssuedBooks (withoutBookRecords orphanStore 1) = []"
    by code_simp+
  have r: "getMostReadBooks orphanStore = []" "getIssuedBooks orphanStore = []"
    using analytics_omit_missing [of orphanStore 1] gone e by simp_all
  have m: "length (getMostActiveReaders orphanStore) = 1"
    by code_simp
  have gone2: "getMember (snd (deleteMember orphanStore 2)) 2 = None"
    using analytics_omit_missing [of orphanStore 2] by blast
  have e2: "getMostActiveReaders (withoutMemberRecords (snd (deleteMember orphanStore 2)) 2) = []"
    by code_simp
  have r2: "getMostActiveReaders (snd (deleteMember orphanStore 2)) = []"
    using analytics_omit_missing [of "snd (deleteMember orphanStore 2)" 2] gone2 e2 by simp
  from h before gone r m r2 show ?thesis by simp
qed

end
